theory Spec2Isabelle
  imports Main "HOL-Library.Sublist" "HOL-Library.Char_ord" "HOL-Library.List_Lexorder" "HOL-Library.AList"
begin

section \<open>Python strings\<close>

text \<open>
  A Python \<open>str\<close> is a sequence of code points and \<open>len\<close> counts code points.
  A \<^typ>\<open>char\<close> stands for one code point below 256, so the model covers the
  Latin-1 strings; the character classes and case maps below are Python's on that range.
\<close>

abbreviation NL :: char where "NL \<equiv> CHR 0x0A"
abbreviation CR :: char where "CR \<equiv> CHR 0x0D"
abbreviation BSL :: char where "BSL \<equiv> CHR 0x5C"
abbreviation DQ :: char where "DQ \<equiv> CHR 0x22"
abbreviation SQ :: char where "SQ \<equiv> CHR 0x27"

definition digit_char :: "nat \<Rightarrow> char" where
  "digit_char d = ''0123456789'' ! d"

text \<open>\<open>str(n)\<close> for a non-negative integer: decimal digits, no padding.\<close>

fun str_nat :: "nat \<Rightarrow> string" where
  "str_nat n = (if n < 10 then [digit_char n] else str_nat (n div 10) @ [digit_char (n mod 10)])"

declare str_nat.simps [simp del]

definition str_int :: "int \<Rightarrow> string" where
  "str_int i = (if i < 0 then CHR ''-'' # str_nat (nat (- i)) else str_nat (nat i))"

text \<open>\<open>str.isspace\<close> on one code point.\<close>

definition py_isspace :: "char \<Rightarrow> bool" where
  "py_isspace c = (let n = (of_char c :: nat) in
     (9 \<le> n \<and> n \<le> 13) \<or> (28 \<le> n \<and> n \<le> 32) \<or> n = 133 \<or> n = 160)"

text \<open>\<open>str.isalnum\<close> on one code point.\<close>

definition py_isalnum :: "char \<Rightarrow> bool" where
  "py_isalnum c = (let n = (of_char c :: nat) in
     (48 \<le> n \<and> n \<le> 57) \<or> (65 \<le> n \<and> n \<le> 90) \<or> (97 \<le> n \<and> n \<le> 122) \<or>
     n = 170 \<or> n = 178 \<or> n = 179 \<or> n = 181 \<or> n = 185 \<or> n = 186 \<or>
     (188 \<le> n \<and> n \<le> 190) \<or> (192 \<le> n \<and> n \<le> 214) \<or> (216 \<le> n \<and> n \<le> 246) \<or>
     (248 \<le> n \<and> n \<le> 255))"

definition py_lower_char :: "char \<Rightarrow> char" where
  "py_lower_char c = (let n = (of_char c :: nat) in
     if (65 \<le> n \<and> n \<le> 90) \<or> (192 \<le> n \<and> n \<le> 222 \<and> n \<noteq> 215) then char_of (n + 32) else c)"

definition py_lower :: "string \<Rightarrow> string" where
  "py_lower s = map py_lower_char s"

text \<open>
  \<open>str.upper\<close>: the sharp s becomes two letters. The upper-case forms of the micro sign
  (181) and of y with diaeresis (255) are the code points 924 and 376, which no
  \<^typ>\<open>char\<close> stands for: there the result is \<open>None\<close>, a text that holds a code point
  above 255 and so differs from, and occurs in, no text of the model.
\<close>

definition py_upper_char :: "char \<Rightarrow> string option" where
  "py_upper_char c = (let n = (of_char c :: nat) in
     if (97 \<le> n \<and> n \<le> 122) \<or> (224 \<le> n \<and> n \<le> 254 \<and> n \<noteq> 247) then Some [char_of (n - 32)]
     else if n = 223 then Some ''SS''
     else if n = 181 \<or> n = 255 then None
     else Some [c])"

fun py_upper :: "string \<Rightarrow> string option" where
  "py_upper [] = Some []"
| "py_upper (c # cs) =
     (case py_upper_char c of
        None \<Rightarrow> None
      | Some u \<Rightarrow> (case py_upper cs of None \<Rightarrow> None | Some us \<Rightarrow> Some (u @ us)))"

definition py_lstrip :: "string \<Rightarrow> string" where
  "py_lstrip s = dropWhile py_isspace s"

definition py_rstrip :: "string \<Rightarrow> string" where
  "py_rstrip s = rev (dropWhile py_isspace (rev s))"

definition py_strip :: "string \<Rightarrow> string" where
  "py_strip s = py_lstrip (py_rstrip s)"

text \<open>\<open>s.lstrip(chars)\<close>: drop every leading code point that occurs in \<open>chars\<close>.\<close>

definition lstrip_chars :: "string \<Rightarrow> string \<Rightarrow> string" where
  "lstrip_chars chars s = dropWhile (\<lambda>c. c \<in> set chars) s"

text \<open>\<open>s.split(sep)\<close> for a one-character separator: never the empty list.\<close>

fun split_on :: "char \<Rightarrow> string \<Rightarrow> string list" where
  "split_on sep [] = [[]]"
| "split_on sep (c # cs) =
     (if c = sep then [] # split_on sep cs
      else (case split_on sep cs of l # ls \<Rightarrow> (c # l) # ls | [] \<Rightarrow> [[c]]))"

text \<open>\<open>sep.join(parts)\<close>.\<close>

fun join :: "string \<Rightarrow> string list \<Rightarrow> string" where
  "join sep [] = []"
| "join sep [x] = x"
| "join sep (x # y # ys) = x @ sep @ join sep (y # ys)"

text \<open>\<open>s.replace(old, new)\<close> for a one-character \<open>old\<close>.\<close>

definition replace_char :: "char \<Rightarrow> string \<Rightarrow> string \<Rightarrow> string" where
  "replace_char old new s = concat (map (\<lambda>c. if c = old then new else [c]) s)"

text \<open>\<open>needle in hay\<close> on strings.\<close>

fun contains :: "string \<Rightarrow> string \<Rightarrow> bool" where
  "contains needle [] = (needle = [])"
| "contains needle (c # cs) = (prefix needle (c # cs) \<or> contains needle cs)"

definition endswith :: "string \<Rightarrow> string \<Rightarrow> bool" where
  "endswith s suf = suffix suf s"

section \<open>Python values\<close>

text \<open>
  The values that reach the tools as JSON. A float is observed by this program only
  through \<open>str\<close>, so it is represented by its \<open>repr\<close> text.
\<close>

datatype pyval =
    VNone
  | VBool bool
  | VInt int
  | VFloat string
  | VStr string
  | VList "pyval list"
  | VDict "(string \<times> pyval) list"

definition hex_digit :: "nat \<Rightarrow> char" where
  "hex_digit d = ''0123456789abcdef'' ! d"

definition repr_char :: "char \<Rightarrow> char \<Rightarrow> string" where
  "repr_char q c = (let n = (of_char c :: nat) in
     if c = q \<or> c = BSL then [BSL, c]
     else if n = 9 then [BSL, CHR ''t'']
     else if n = 10 then [BSL, CHR ''n'']
     else if n = 13 then [BSL, CHR ''r'']
     else if n < 32 \<or> n = 127 \<or> (128 \<le> n \<and> n \<le> 160) \<or> n = 173
       then [BSL, CHR ''x'', hex_digit (n div 16), hex_digit (n mod 16)]
     else [c])"

text \<open>\<open>repr\<close> of a \<open>str\<close>: single quotes unless the text has a single and no double quote.\<close>

definition repr_str :: "string \<Rightarrow> string" where
  "repr_str s = (let q = (if SQ \<in> set s \<and> DQ \<notin> set s then DQ else SQ)
     in [q] @ concat (map (repr_char q) s) @ [q])"

fun py_repr :: "pyval \<Rightarrow> string" where
  "py_repr VNone = ''None''"
| "py_repr (VBool b) = (if b then ''True'' else ''False'')"
| "py_repr (VInt i) = str_int i"
| "py_repr (VFloat r) = r"
| "py_repr (VStr s) = repr_str s"
| "py_repr (VList xs) = ''['' @ join '', '' (map py_repr xs) @ '']''"
| "py_repr (VDict kvs) =
     ''{'' @ join '', '' (map (\<lambda>kv. repr_str (fst kv) @ '': '' @ py_repr (snd kv)) kvs) @ ''}''"

text \<open>\<open>str(v)\<close>, which is also what an f-string field renders.\<close>

definition py_str :: "pyval \<Rightarrow> string" where
  "py_str v = (case v of VStr s \<Rightarrow> s | _ \<Rightarrow> py_repr v)"

text \<open>\<open>type(v).__name__\<close>, as it appears in the interpreter's error messages.\<close>

fun type_name :: "pyval \<Rightarrow> string" where
  "type_name VNone = ''NoneType''"
| "type_name (VBool _) = ''bool''"
| "type_name (VInt _) = ''int''"
| "type_name (VFloat _) = ''float''"
| "type_name (VStr _) = ''str''"
| "type_name (VList _) = ''list''"
| "type_name (VDict _) = ''dict''"

text \<open>\<open>d.get(key, default)\<close> on a dict with string keys.\<close>

definition dict_get :: "(string \<times> pyval) list \<Rightarrow> string \<Rightarrow> pyval \<Rightarrow> pyval" where
  "dict_get d k dflt = (case map_of d k of Some v \<Rightarrow> v | None \<Rightarrow> dflt)"

section \<open>Exceptions\<close>

text \<open>
  The subclasses of \<open>Exception\<close> that the modelled code can meet, each with the text
  \<open>str(e)\<close> gives. \<open>OSError\<close> stands for the local file errors (\<open>IOError\<close> is its
  alias); \<open>RemoteError\<close> stands for whatever the SSH library raises.
\<close>

datatype exn =
    ValueError string
  | TypeError string
  | AttributeError string
  | KeyError string
  | OSError string
  | RemoteError string

fun exn_str :: "exn \<Rightarrow> string" where
  "exn_str (ValueError m) = m"
| "exn_str (TypeError m) = m"
| "exn_str (AttributeError m) = m"
| "exn_str (KeyError k) = repr_str k"
| "exn_str (OSError m) = m"
| "exn_str (RemoteError m) = m"

section \<open>The world outside the process\<close>

type_synonym path = "string list"

definition path_str :: "path \<Rightarrow> string" where
  "path_str p = join ''/'' p"

record completed =
  stdout :: string
  stderr :: string
  returncode :: int

record utc =
  year :: nat
  month :: nat
  day :: nat
  hour :: nat
  minute :: nat
  second :: nat

text \<open>
  What the process cannot decide: the configured display, the answer of the SSH
  connection to a command (given the commands sent before, the command, and the
  \<open>check\<close> flag), the clock, and the JSON parser.
\<close>

record env =
  vm_display :: string
  ssh_run :: "string list \<Rightarrow> string \<Rightarrow> bool \<Rightarrow> exn + completed"
  clock :: "nat \<Rightarrow> utc"
  json_loads :: "string \<Rightarrow> exn + pyval"

text \<open>
  What the process changes: the commands handed to the connection, the pauses taken,
  the local directories and files, and the number of clock readings. As in a file
  system, a directory or file is listed together with the directories above it.
\<close>

record world =
  sent :: "string list"
  slept :: "pyval list"
  dirs :: "path list"
  files :: "(path \<times> string) list"
  ticks :: nat

type_synonym 'a io = "world \<Rightarrow> (exn + 'a) \<times> world"

definition io_return :: "'a \<Rightarrow> 'a io" where
  "io_return x w = (Inr x, w)"

definition io_raise :: "exn \<Rightarrow> 'a io" where
  "io_raise e w = (Inl e, w)"

definition io_bind :: "'a io \<Rightarrow> ('a \<Rightarrow> 'b io) \<Rightarrow> 'b io" where
  "io_bind m f w = (case m w of (Inl e, w') \<Rightarrow> (Inl e, w') | (Inr x, w') \<Rightarrow> f x w')"

text \<open>\<open>try: m  except Exception as e: h e\<close>.\<close>

definition io_catch :: "'a io \<Rightarrow> (exn \<Rightarrow> 'a io) \<Rightarrow> 'a io" where
  "io_catch m h w = (case m w of (Inl e, w') \<Rightarrow> h e w' | (Inr x, w') \<Rightarrow> (Inr x, w'))"

subsection \<open>Clock\<close>

definition zpad :: "nat \<Rightarrow> string \<Rightarrow> string" where
  "zpad n s = replicate (n - length s) CHR ''0'' @ s"

text \<open>\<open>strftime("%Y%m%d-%H%M%S")\<close> and \<open>strftime("%Y-%m-%d %H:%M:%S")\<close>, every field zero-padded.\<close>

definition stamp_compact :: "utc \<Rightarrow> string" where
  "stamp_compact t = zpad 4 (str_nat (year t)) @ zpad 2 (str_nat (month t)) @ zpad 2 (str_nat (day t))
     @ ''-'' @ zpad 2 (str_nat (hour t)) @ zpad 2 (str_nat (minute t)) @ zpad 2 (str_nat (second t))"

definition stamp_log :: "utc \<Rightarrow> string" where
  "stamp_log t = zpad 4 (str_nat (year t)) @ ''-'' @ zpad 2 (str_nat (month t)) @ ''-'' @ zpad 2 (str_nat (day t))
     @ '' '' @ zpad 2 (str_nat (hour t)) @ '':'' @ zpad 2 (str_nat (minute t)) @ '':'' @ zpad 2 (str_nat (second t))"

definition utcnow :: "env \<Rightarrow> utc io" where
  "utcnow ev w = (Inr (clock ev (ticks w)), w\<lparr>ticks := Suc (ticks w)\<rparr>)"

subsection \<open>Local files\<close>

text \<open>The empty path is the working directory, which always exists.\<close>

definition is_dir :: "world \<Rightarrow> path \<Rightarrow> bool" where
  "is_dir w p = (p = [] \<or> p \<in> set (dirs w))"

definition is_file :: "world \<Rightarrow> path \<Rightarrow> bool" where
  "is_file w p = (map_of (files w) p \<noteq> None)"

definition exists :: "world \<Rightarrow> path \<Rightarrow> bool" where
  "exists w p = (is_dir w p \<or> is_file w p)"

definition no_such_file :: "path \<Rightarrow> exn" where
  "no_such_file p = OSError (''[Errno 2] No such file or directory: '' @ repr_str (path_str p))"

definition is_a_directory :: "path \<Rightarrow> exn" where
  "is_a_directory p = OSError (''[Errno 21] Is a directory: '' @ repr_str (path_str p))"

definition not_a_directory :: "path \<Rightarrow> exn" where
  "not_a_directory p = OSError (''[Errno 20] Not a directory: '' @ repr_str (path_str p))"

text \<open>The proper, non-empty prefixes of a path, the shortest first.\<close>

definition ancestors :: "path \<Rightarrow> path list" where
  "ancestors p = map (\<lambda>n. take n p) [1..<length p]"

text \<open>
  The error of the system for a path that cannot be reached or does not exist: the first
  ancestor that is no directory decides, \<open>ENOTDIR\<close> when it is a regular file and
  \<open>ENOENT\<close> otherwise.
\<close>

definition lookup_error :: "world \<Rightarrow> path \<Rightarrow> exn" where
  "lookup_error w p =
     (case filter (\<lambda>q. \<not> is_dir w q) (ancestors p) of
        q # _ \<Rightarrow> if is_file w q then not_a_directory p else no_such_file p
      | [] \<Rightarrow> no_such_file p)"

text \<open>
  Reading in text mode translates line ends: \<open>\r\n\<close> and a lone \<open>\r\<close> become \<open>\n\<close>.
  Writing in text mode on a POSIX host, where the line separator is \<open>\n\<close>, changes nothing.
\<close>

fun universal_newlines :: "string \<Rightarrow> string" where
  "universal_newlines [] = []"
| "universal_newlines [c] = (if c = CR then [NL] else [c])"
| "universal_newlines (c # d # ds) =
     (if c = CR then
        (if d = NL then NL # universal_newlines ds else NL # universal_newlines (d # ds))
      else c # universal_newlines (d # ds))"

text \<open>\<open>open(p, "w").write(s)\<close>: the parent directory must exist, \<open>p\<close> must not be a directory.\<close>

definition write_text :: "path \<Rightarrow> string \<Rightarrow> unit io" where
  "write_text p s w =
     (if is_dir w p then (Inl (is_a_directory p), w)
      else if \<not> is_dir w (butlast p) then (Inl (lookup_error w p), w)
      else (Inr (), w\<lparr>files := AList.update p s (files w)\<rparr>))"

text \<open>\<open>open(p, "a").write(s)\<close>.\<close>

definition append_text :: "path \<Rightarrow> string \<Rightarrow> unit io" where
  "append_text p s w =
     (if is_dir w p then (Inl (is_a_directory p), w)
      else if \<not> is_dir w (butlast p) then (Inl (lookup_error w p), w)
      else (Inr (), w\<lparr>files := AList.update p
              ((case map_of (files w) p of Some old \<Rightarrow> old | None \<Rightarrow> []) @ s) (files w)\<rparr>))"

text \<open>\<open>p.read_text()\<close>, and \<open>open(p).read()\<close>: the stored text with its line ends translated.\<close>

definition read_text :: "world \<Rightarrow> path \<Rightarrow> exn + string" where
  "read_text w p =
     (if is_dir w p then Inl (is_a_directory p)
      else (case map_of (files w) p of
              Some s \<Rightarrow> Inr (universal_newlines s)
            | None \<Rightarrow> Inl (lookup_error w p)))"

definition children :: "world \<Rightarrow> path \<Rightarrow> path list" where
  "children w d = filter (\<lambda>p. p \<noteq> [] \<and> butlast p = d) (remdups (dirs w @ map fst (files w)))"

text \<open>\<open>d.iterdir()\<close>, in whatever order the system lists the entries.\<close>

definition iterdir :: "world \<Rightarrow> path \<Rightarrow> exn + path list" where
  "iterdir w d =
     (if is_dir w d then Inr (children w d)
      else Inl (if is_file w d then not_a_directory d else lookup_error w d))"

text \<open>\<open>d.glob("*.md")\<close>: the entries of \<open>d\<close> whose name ends in \<open>.md\<close>; none when \<open>d\<close> is no directory.\<close>

definition glob_md :: "world \<Rightarrow> path \<Rightarrow> path list" where
  "glob_md w d = (if is_dir w d then filter (\<lambda>p. endswith (last p) ''.md'') (children w d) else [])"

text \<open>\<open>sorted(xs)\<close> is stable; \<open>sorted(xs, reverse=True)\<close> keeps equal elements in their order too.\<close>

definition sorted_py :: "'a::linorder list \<Rightarrow> 'a list" where
  "sorted_py xs = sort_key (\<lambda>x. x) xs"

definition sorted_reverse :: "'a::linorder list \<Rightarrow> 'a list" where
  "sorted_reverse xs = rev (sort_key (\<lambda>x. x) (rev xs))"

section \<open>Project management\<close>

definition PROJECTS_DIR :: path where
  "PROJECTS_DIR = [''data'', ''projects'']"

text \<open>
  The dataclass \<open>Project\<close>. \<open>Project.load\<close> fills the fields with whatever the metadata
  file holds, so they are Python values.
\<close>

record Project =
  name :: pyval
  path :: path
  created_at :: pyval
  description :: pyval

text \<open>\<open>data[key]\<close> with a string key.\<close>

definition subscript :: "pyval \<Rightarrow> string \<Rightarrow> exn + pyval" where
  "subscript data k =
     (case data of
        VDict kvs \<Rightarrow> (case map_of kvs k of Some v \<Rightarrow> Inr v | None \<Rightarrow> Inl (KeyError k))
      | VList _ \<Rightarrow> Inl (TypeError ''list indices must be integers or slices, not str'')
      | VStr _ \<Rightarrow> Inl (TypeError (''string indices must be integers, not '' @ [SQ] @ ''str'' @ [SQ]))
      | _ \<Rightarrow> Inl (TypeError ([SQ] @ type_name data @ [SQ] @ '' object is not subscriptable'')))"

text \<open>\<open>data.get(key, default)\<close> on any value: only a dict has the method.\<close>

definition py_get :: "pyval \<Rightarrow> string \<Rightarrow> pyval \<Rightarrow> exn + pyval" where
  "py_get data k dflt =
     (case data of
        VDict kvs \<Rightarrow> Inr (dict_get kvs k dflt)
      | _ \<Rightarrow> Inl (AttributeError ([SQ] @ type_name data @ [SQ] @ '' object has no attribute '' @ [SQ] @ ''get'' @ [SQ])))"

text \<open>\<open>Project.load\<close>.\<close>

definition Project_load :: "env \<Rightarrow> world \<Rightarrow> path \<Rightarrow> exn + Project" where
  "Project_load ev w project_path =
     (let metadata_file = project_path @ [''metadata.json''] in
      if \<not> exists w metadata_file
      then Inl (OSError (''No metadata.json in '' @ path_str project_path))
      else (case read_text w metadata_file of
          Inl e \<Rightarrow> Inl e
        | Inr filetext \<Rightarrow>
           (case json_loads ev filetext of
              Inl e \<Rightarrow> Inl e
            | Inr data \<Rightarrow>
               (case subscript data ''name'' of
                  Inl e \<Rightarrow> Inl e
                | Inr n \<Rightarrow>
                   (case subscript data ''created_at'' of
                      Inl e \<Rightarrow> Inl e
                    | Inr c \<Rightarrow>
                       (case py_get data ''description'' (VStr []) of
                          Inl e \<Rightarrow> Inl e
                        | Inr d \<Rightarrow>
                            Inr \<lparr>name = n, path = project_path, created_at = c,
                                 description = d\<rparr>))))))"

text \<open>\<open>Project._log\<close>: one line appended to \<open>logs/project.log\<close>.\<close>

definition Project_log :: "env \<Rightarrow> Project \<Rightarrow> string \<Rightarrow> string \<Rightarrow> unit io" where
  "Project_log ev self message level =
     io_bind (utcnow ev) (\<lambda>t.
       let log_line = ''['' @ stamp_log t @ ''] ['' @ level @ ''] '' @ message @ [NL];
           log_file = path self @ [''logs'', ''project.log'']
       in append_text log_file log_line)"

text \<open>The file name of \<open>Project.save_advice\<close>: the sanitized title, cut to 50 characters.\<close>

definition safe_title :: "string \<Rightarrow> string" where
  "safe_title ttl = take 50 (map (\<lambda>c. if py_isalnum c \<or> c \<in> set ''- _'' then c else CHR ''_'') ttl)"

definition advice_filename :: "utc \<Rightarrow> string \<Rightarrow> string" where
  "advice_filename t ttl = stamp_compact t @ ''_'' @ safe_title ttl @ ''.md''"

text \<open>\<open>Project.save_advice\<close>.\<close>

definition save_advice :: "env \<Rightarrow> Project \<Rightarrow> string \<Rightarrow> string \<Rightarrow> path io" where
  "save_advice ev self ttl body =
     io_bind (utcnow ev) (\<lambda>t.
       let advice_path = path self @ [''advice'', advice_filename t ttl]
       in io_bind (write_text advice_path (''# '' @ ttl @ [NL, NL] @ body @ [NL])) (\<lambda>_.
          io_bind (Project_log ev self (''Advice saved: '' @ ttl) ''INFO'') (\<lambda>_.
          io_return advice_path)))"

text \<open>The two parsing expressions of \<open>Project.get_all_advice\<close>, on the split lines.\<close>

definition advice_title :: "string list \<Rightarrow> string \<Rightarrow> string" where
  "advice_title lines stem =
     (case lines of l # _ \<Rightarrow> py_strip (lstrip_chars ''# '' l) | [] \<Rightarrow> stem)"

definition advice_body :: "string list \<Rightarrow> string" where
  "advice_body lines = (if length lines > 2 then py_strip (join [NL] (drop 2 lines)) else [])"

text \<open>\<open>Path.stem\<close> of a name that ends in \<open>.md\<close>.\<close>

definition md_stem :: "string \<Rightarrow> string" where
  "md_stem n = (if n = ''.md'' then n else take (length n - 3) n)"

text \<open>The loop of \<open>Project.get_all_advice\<close>: one dict per file, in the order given.\<close>

fun advice_of_files :: "world \<Rightarrow> path list \<Rightarrow> exn + (string \<times> string) list list" where
  "advice_of_files w [] = Inr []"
| "advice_of_files w (advice_file # rest) =
     (case read_text w advice_file of
        Inl e \<Rightarrow> Inl e
      | Inr filetext \<Rightarrow>
         (let lines = split_on NL (py_strip filetext);
              entry = [(''title'', advice_title lines (md_stem (last advice_file))),
                       (''content'', advice_body lines),
                       (''file'', last advice_file)]
          in (case advice_of_files w rest of
                Inl e \<Rightarrow> Inl e
              | Inr advice_list \<Rightarrow> Inr (entry # advice_list))))"

definition get_all_advice :: "world \<Rightarrow> Project \<Rightarrow> exn + (string \<times> string) list list" where
  "get_all_advice w self =
     (let advice_dir = path self @ [''advice''] in
      if \<not> exists w advice_dir then Inr []
      else advice_of_files w (sorted_py (glob_md w advice_dir)))"

section \<open>Activity log\<close>

text \<open>\<open>AppContext\<close>; the SSH connection it holds is the \<^typ>\<open>env\<close> and \<^typ>\<open>world\<close>.\<close>

record AppContext =
  project :: "Project option"

text \<open>Reading \<open>ctx.request_context\<close> when no context was passed.\<close>

definition no_context :: exn where
  "no_context = AttributeError
     ([SQ] @ ''NoneType'' @ [SQ] @ '' object has no attribute '' @ [SQ] @ ''request_context'' @ [SQ])"

definition get_project_optional :: "AppContext option \<Rightarrow> Project option" where
  "get_project_optional ctx = (case ctx of None \<Rightarrow> None | Some c \<Rightarrow> project c)"

definition get_project :: "AppContext option \<Rightarrow> exn + Project" where
  "get_project ctx =
     (case ctx of
        None \<Rightarrow> Inl no_context
      | Some c \<Rightarrow>
         (case project c of
            None \<Rightarrow> Inl (ValueError ''No project initialized. Call project_init first.'')
          | Some p \<Rightarrow> Inr p))"

text \<open>\<open>_log_tool_call\<close>; \<open>result = None\<close> is the default.\<close>

definition log_tool_call ::
  "env \<Rightarrow> AppContext option \<Rightarrow> string \<Rightarrow> (string \<times> pyval) list \<Rightarrow> string option \<Rightarrow> unit io" where
  "log_tool_call ev ctx tool_name params result =
     (case get_project_optional ctx of
        None \<Rightarrow> io_return ()
      | Some p \<Rightarrow>
         (let param_strs = map (\<lambda>kv.
                let v_str = py_str (snd kv);
                    v_str = (if length v_str > 100 then take 100 v_str @ ''...'' else v_str)
                in fst kv @ ''='' @ v_str) params;
              params_str = join '', '' param_strs;
              log_msg = ''TOOL: '' @ tool_name @ ''('' @ params_str @ '')'';
              log_msg = (case result of
                  None \<Rightarrow> log_msg
                | Some r \<Rightarrow>
                   if r = [] then log_msg
                   else log_msg @ '' -> '' @ (if length r \<le> 200 then r else take 200 r @ ''...''))
          in Project_log ev p log_msg ''INFO''))"

text \<open>\<open>_log_error\<close>.\<close>

definition log_error :: "env \<Rightarrow> AppContext option \<Rightarrow> string \<Rightarrow> string \<Rightarrow> unit io" where
  "log_error ev ctx tool_name err =
     (case get_project_optional ctx of
        None \<Rightarrow> io_return ()
      | Some p \<Rightarrow> Project_log ev p (''ERROR in '' @ tool_name @ '': '' @ err) ''ERROR'')"

section \<open>Tools: mouse, keyboard, batches\<close>

text \<open>
  \<open>run_vm_cmd\<close>: the command goes to the connection with \<open>check=True\<close>; whatever the
  connection raises is raised, otherwise the stripped standard output is returned.
\<close>

definition run_vm_cmd :: "env \<Rightarrow> string \<Rightarrow> string io" where
  "run_vm_cmd ev cmd w =
     (case ssh_run ev (sent w) cmd True of
        Inl e \<Rightarrow> (Inl e, w\<lparr>sent := sent w @ [cmd]\<rparr>)
      | Inr r \<Rightarrow> (Inr (py_strip (stdout r)), w\<lparr>sent := sent w @ [cmd]\<rparr>))"

text \<open>\<open>move_mouse\<close>; the framework passes \<open>x\<close>, \<open>y\<close> as integers and \<open>mode\<close> as a string.\<close>

definition move_mouse :: "env \<Rightarrow> AppContext option \<Rightarrow> int \<Rightarrow> int \<Rightarrow> string \<Rightarrow> string io" where
  "move_mouse ev ctx x y mode =
     (case ctx of
        None \<Rightarrow> io_raise no_context
      | Some _ \<Rightarrow>
         (if mode \<noteq> ''absolute'' \<and> mode \<noteq> ''relative''
          then io_raise (ValueError (''mode must be '' @ [SQ] @ ''absolute'' @ [SQ] @ '' or ''
                                     @ [SQ] @ ''relative'' @ [SQ]))
          else
            (let cmd = (if mode = ''absolute''
                        then ''DISPLAY='' @ vm_display ev @ '' xdotool mousemove --sync ''
                             @ str_int x @ '' '' @ str_int y
                        else ''DISPLAY='' @ vm_display ev @ '' xdotool mousemove_relative --sync ''
                             @ str_int x @ '' '' @ str_int y)
             in io_bind (run_vm_cmd ev cmd) (\<lambda>_.
                let result = ''Mouse moved to ('' @ str_int x @ '', '' @ str_int y @ '') ['' @ mode @ '']'' in
                io_bind (log_tool_call ev ctx ''move_mouse''
                           [(''x'', VInt x), (''y'', VInt y), (''mode'', VStr mode)] None) (\<lambda>_.
                io_return result)))))"

definition button_map :: "(string \<times> nat) list" where
  "button_map = [(''left'', 1), (''middle'', 2), (''right'', 3)]"

text \<open>\<open>click\<close>.\<close>

definition click :: "env \<Rightarrow> AppContext option \<Rightarrow> string \<Rightarrow> int \<Rightarrow> string io" where
  "click ev ctx button count =
     (case ctx of
        None \<Rightarrow> io_raise no_context
      | Some _ \<Rightarrow>
         (case map_of button_map button of
            None \<Rightarrow> io_raise (ValueError ''button must be left/middle/right'')
          | Some b \<Rightarrow>
             io_bind (run_vm_cmd ev (''DISPLAY='' @ vm_display ev @ '' xdotool click --repeat ''
                                     @ str_int count @ '' '' @ str_nat b)) (\<lambda>_.
             let result = ''Clicked '' @ button @ '' x'' @ str_int count in
             io_bind (log_tool_call ev ctx ''click''
                        [(''button'', VStr button), (''count'', VInt count)] None) (\<lambda>_.
             io_return result))))"

text \<open>\<open>type_text\<close>.\<close>

definition type_text :: "env \<Rightarrow> AppContext option \<Rightarrow> string \<Rightarrow> string io" where
  "type_text ev ctx text =
     (case ctx of
        None \<Rightarrow> io_raise no_context
      | Some _ \<Rightarrow>
         (let escaped = replace_char DQ [BSL, DQ] text;
              cmd = ''DISPLAY='' @ vm_display ev @ '' xdotool type --delay 10 '' @ [DQ] @ escaped @ [DQ]
          in io_bind (run_vm_cmd ev cmd) (\<lambda>_.
             let log_text = (if length text \<le> 20 then text
                             else take 10 text @ ''...('' @ str_nat (length text) @ '' chars)'')
             in io_bind (log_tool_call ev ctx ''type_text'' [(''text'', VStr log_text)] None) (\<lambda>_.
                io_return (''Typed '' @ str_nat (length text) @ '' characters'')))))"

subsection \<open>Batches\<close>

text \<open>An action descriptor is a dict with string keys.\<close>

type_synonym action_def = "(string \<times> pyval) list"

definition no_attribute :: "pyval \<Rightarrow> string \<Rightarrow> exn" where
  "no_attribute v a = AttributeError
     ([SQ] @ type_name v @ [SQ] @ '' object has no attribute '' @ [SQ] @ a @ [SQ])"

text \<open>\<open>k.lower() for k in keys\<close>, consumed by \<open>join\<close>: the first element without \<open>lower\<close> raises.\<close>

fun lower_all :: "pyval list \<Rightarrow> exn + string list" where
  "lower_all [] = Inr []"
| "lower_all (k # ks) =
     (case k of
        VStr s \<Rightarrow> (case lower_all ks of Inl e \<Rightarrow> Inl e | Inr ls \<Rightarrow> Inr (py_lower s # ls))
      | _ \<Rightarrow> Inl (no_attribute k ''lower''))"

text \<open>Iterating \<open>keys\<close>: a list gives its elements, a string its characters, a dict its keys.\<close>

definition key_combo :: "pyval \<Rightarrow> exn + string" where
  "key_combo keys =
     (case keys of
        VList ks \<Rightarrow> (case lower_all ks of Inl e \<Rightarrow> Inl e | Inr ls \<Rightarrow> Inr (join ''+'' ls))
      | VStr s \<Rightarrow> Inr (join ''+'' (map (\<lambda>c. py_lower [c]) s))
      | VDict kvs \<Rightarrow> Inr (join ''+'' (map (\<lambda>kv. py_lower (fst kv)) kvs))
      | _ \<Rightarrow> Inl (TypeError ([SQ] @ type_name keys @ [SQ] @ '' object is not iterable'')))"

text \<open>\<open>button_map.get(button, 1)\<close> of the batch: a list or dict cannot be hashed.\<close>

definition batch_button :: "pyval \<Rightarrow> exn + nat" where
  "batch_button button =
     (case button of
        VStr b \<Rightarrow> Inr (case map_of button_map b of Some n \<Rightarrow> n | None \<Rightarrow> 1)
      | VList _ \<Rightarrow> Inl (TypeError (''unhashable type: '' @ [SQ] @ ''list'' @ [SQ]))
      | VDict _ \<Rightarrow> Inl (TypeError (''unhashable type: '' @ [SQ] @ ''dict'' @ [SQ]))
      | _ \<Rightarrow> Inr 1)"

text \<open>\<open>asyncio.sleep(seconds)\<close> compares its argument with zero first.\<close>

definition sleep :: "pyval \<Rightarrow> unit io" where
  "sleep seconds w =
     (case seconds of
        VInt _ \<Rightarrow> (Inr (), w\<lparr>slept := slept w @ [seconds]\<rparr>)
      | VFloat _ \<Rightarrow> (Inr (), w\<lparr>slept := slept w @ [seconds]\<rparr>)
      | VBool _ \<Rightarrow> (Inr (), w\<lparr>slept := slept w @ [seconds]\<rparr>)
      | _ \<Rightarrow> (Inl (TypeError ([SQ] @ ''<='' @ [SQ] @ '' not supported between instances of ''
                     @ [SQ] @ type_name seconds @ [SQ] @ '' and '' @ [SQ] @ ''int'' @ [SQ])), w))"

text \<open>
  The body of the \<open>try\<close> block of \<open>run_actions\<close> for the element at index \<open>i\<close>: it
  raises, or it yields the entry that the block appends to \<open>results\<close>.
\<close>

definition try_action :: "env \<Rightarrow> nat \<Rightarrow> action_def \<Rightarrow> string io" where
  "try_action ev i action_def =
     (let action_type = dict_get action_def ''action'' VNone in
      if action_type = VStr ''press_keys'' then
        (let keys = dict_get action_def ''keys'' (VList []) in
         case key_combo keys of
           Inl e \<Rightarrow> io_raise e
         | Inr combo \<Rightarrow>
            io_bind (run_vm_cmd ev (''DISPLAY='' @ vm_display ev @ '' xdotool key '' @ combo)) (\<lambda>_.
            io_return (str_nat (i + 1) @ ''. press_keys '' @ py_str keys)))
      else if action_type = VStr ''type_text'' then
        (let text = dict_get action_def ''text'' (VStr []) in
         case text of
           VStr t \<Rightarrow>
            (let escaped = replace_char DQ [BSL, DQ] t in
             io_bind (run_vm_cmd ev (''DISPLAY='' @ vm_display ev @ '' xdotool type --delay 10 ''
                                     @ [DQ] @ escaped @ [DQ])) (\<lambda>_.
             io_return (str_nat (i + 1) @ ''. type_text ('' @ str_nat (length t) @ '' chars)'')))
         | _ \<Rightarrow> io_raise (no_attribute text ''replace''))
      else if action_type = VStr ''click'' then
        (let button = dict_get action_def ''button'' (VStr ''left'');
             count = dict_get action_def ''count'' (VInt 1) in
         case batch_button button of
           Inl e \<Rightarrow> io_raise e
         | Inr btn_num \<Rightarrow>
            io_bind (run_vm_cmd ev (''DISPLAY='' @ vm_display ev @ '' xdotool click --repeat ''
                                    @ py_str count @ '' '' @ str_nat btn_num)) (\<lambda>_.
            io_return (str_nat (i + 1) @ ''. click '' @ py_str button @ '' x'' @ py_str count)))
      else if action_type = VStr ''move_mouse'' then
        (let x = dict_get action_def ''x'' (VInt 0);
             y = dict_get action_def ''y'' (VInt 0);
             mode = dict_get action_def ''mode'' (VStr ''absolute'');
             cmd = (if mode = VStr ''absolute''
                    then ''DISPLAY='' @ vm_display ev @ '' xdotool mousemove --sync ''
                         @ py_str x @ '' '' @ py_str y
                    else ''DISPLAY='' @ vm_display ev @ '' xdotool mousemove_relative --sync ''
                         @ py_str x @ '' '' @ py_str y)
         in io_bind (run_vm_cmd ev cmd) (\<lambda>_.
            io_return (str_nat (i + 1) @ ''. move_mouse ('' @ py_str x @ '', '' @ py_str y
                       @ '') ['' @ py_str mode @ '']'')))
      else if action_type = VStr ''wait'' then
        (let seconds = dict_get action_def ''seconds'' (VFloat ''0.5'') in
         io_bind (sleep seconds) (\<lambda>_.
         io_return (str_nat (i + 1) @ ''. wait '' @ py_str seconds @ ''s'')))
      else io_return (str_nat (i + 1) @ ''. UNKNOWN ACTION: '' @ py_str action_type))"

text \<open>The entry that the \<open>except\<close> clause appends.\<close>

definition error_entry :: "nat \<Rightarrow> action_def \<Rightarrow> exn \<Rightarrow> string" where
  "error_entry i action_def e =
     str_nat (i + 1) @ ''. ERROR in '' @ py_str (dict_get action_def ''action'' VNone)
       @ '': '' @ exn_str e"

text \<open>
  The \<open>for\<close> loop of \<open>run_actions\<close> from index \<open>i\<close> on, with the entries gathered so far.
  After an exception the entry is appended, the error is logged and the loop is left.
\<close>

fun run_loop ::
  "env \<Rightarrow> AppContext option \<Rightarrow> nat \<Rightarrow> action_def list \<Rightarrow> string list \<Rightarrow> string list io" where
  "run_loop ev ctx i [] results w = (Inr results, w)"
| "run_loop ev ctx i (action_def # rest) results w =
     (case try_action ev i action_def w of
        (Inr entry, w1) \<Rightarrow> run_loop ev ctx (i + 1) rest (results @ [entry]) w1
      | (Inl e, w1) \<Rightarrow>
          io_bind (log_error ev ctx ''run_actions''
                     (''Action '' @ str_nat (i + 1) @ '' (''
                      @ py_str (dict_get action_def ''action'' VNone) @ ''): '' @ exn_str e)) (\<lambda>_.
          io_return (results @ [error_entry i action_def e])) w1)"

definition summary :: "string list \<Rightarrow> string" where
  "summary results = ''Executed '' @ str_nat (length results) @ '' actions:'' @ [NL] @ join [NL] results"

text \<open>\<open>run_actions\<close>.\<close>

definition run_actions :: "env \<Rightarrow> AppContext option \<Rightarrow> action_def list \<Rightarrow> string io" where
  "run_actions ev ctx actions =
     (case ctx of
        None \<Rightarrow> io_raise no_context
      | Some _ \<Rightarrow>
         io_bind (run_loop ev ctx 0 actions []) (\<lambda>results.
         io_bind (log_tool_call ev ctx ''run_actions'' [(''count'', VInt (int (length actions)))]
                    (Some (''executed '' @ str_nat (length results) @ '' actions''))) (\<lambda>_.
         io_return (summary results))))"

section \<open>SSH tools\<close>

text \<open>The \<open>try\<close> block of \<open>ssh_execute\<close>: the command runs with \<open>check=False\<close>.\<close>

definition ssh_execute_try :: "env \<Rightarrow> AppContext option \<Rightarrow> string \<Rightarrow> string io" where
  "ssh_execute_try ev ctx command w =
     (case ssh_run ev (sent w) command False of
        Inl e \<Rightarrow> (Inl e, w\<lparr>sent := sent w @ [command]\<rparr>)
      | Inr result \<Rightarrow>
         (let output_parts =
                (if stdout result \<noteq> [] then [''STDOUT:'' @ [NL] @ stdout result] else [])
                @ (if stderr result \<noteq> [] then [''STDERR:'' @ [NL] @ stderr result] else [])
          in (if returncode result \<noteq> 0 then
                (let output_parts = output_parts @ [''EXIT CODE: '' @ str_int (returncode result)] in
                 io_bind (log_tool_call ev ctx ''ssh_execute'' [(''command'', VStr command)]
                            (Some (''exit_code='' @ str_int (returncode result)))) (\<lambda>_.
                 io_bind (log_error ev ctx ''ssh_execute''
                            (''Command failed with exit code '' @ str_int (returncode result))) (\<lambda>_.
                 io_return (join [NL, NL] output_parts))))
              else
                io_bind (log_tool_call ev ctx ''ssh_execute'' [(''command'', VStr command)]
                           (Some ''success'')) (\<lambda>_.
                io_return (if output_parts \<noteq> [] then join [NL, NL] output_parts
                           else ''Command completed (no output)'')))
             (w\<lparr>sent := sent w @ [command]\<rparr>)))"

text \<open>\<open>ssh_execute\<close>.\<close>

definition ssh_execute :: "env \<Rightarrow> AppContext option \<Rightarrow> string \<Rightarrow> string io" where
  "ssh_execute ev ctx command =
     (case ctx of
        None \<Rightarrow> io_raise no_context
      | Some _ \<Rightarrow>
         io_catch (ssh_execute_try ev ctx command) (\<lambda>e.
           io_bind (log_error ev ctx ''ssh_execute'' (exn_str e)) (\<lambda>_.
           io_return (''Error executing command: '' @ exn_str e))))"

section \<open>Project tools\<close>

text \<open>\<open>xs[start:]\<close>.\<close>

definition slice_from :: "int \<Rightarrow> 'a list \<Rightarrow> 'a list" where
  "slice_from start xs =
     (let n = int (length xs);
          s = (if start < 0 then max 0 (n + start) else min start n)
      in drop (nat s) xs)"

text \<open>
  The three steps of \<open>project_read_logs\<close> on the lines of the log: filter, cut, report.
  A filter whose upper-case form holds a code point above 255 occurs in no line.
\<close>

definition filter_level :: "string \<Rightarrow> string list \<Rightarrow> string list" where
  "filter_level level_filter all_lines =
     (if level_filter \<noteq> []
      then (case py_upper level_filter of
              Some upper \<Rightarrow> filter (\<lambda>line. contains (''['' @ upper @ '']'') line) all_lines
            | None \<Rightarrow> [])
      else all_lines)"

definition recent_of :: "int \<Rightarrow> string list \<Rightarrow> string list" where
  "recent_of lines all_lines =
     (if int (length all_lines) > lines then slice_from (- lines) all_lines else all_lines)"

definition log_report :: "string \<Rightarrow> string list \<Rightarrow> string list \<Rightarrow> string" where
  "log_report level_filter all_lines recent_lines =
     (if recent_lines = []
      then ''No log entries found''
           @ (if level_filter \<noteq> [] then '' with level '' @ level_filter else []) @ ''.''
      else ''Log entries ('' @ str_nat (length recent_lines) @ '' of ''
           @ str_nat (length all_lines) @ '' total):'' @ [NL, NL] @ join [NL] recent_lines)"

text \<open>\<open>project_read_logs\<close>; it changes nothing.\<close>

definition project_read_logs :: "world \<Rightarrow> AppContext option \<Rightarrow> int \<Rightarrow> string \<Rightarrow> exn + string" where
  "project_read_logs w ctx lines level_filter =
     (case get_project ctx of
        Inl e \<Rightarrow> Inl e
      | Inr p \<Rightarrow>
         (let log_file = path p @ [''logs'', ''project.log''] in
          if \<not> exists w log_file then Inr ''No log entries yet.''
          else (case read_text w log_file of
              Inl e \<Rightarrow> Inl e
            | Inr logtext \<Rightarrow>
               (let all_lines = split_on NL (py_strip logtext);
                    all_lines = filter_level level_filter all_lines;
                    recent_lines = recent_of lines all_lines
                in Inr (log_report level_filter all_lines recent_lines)))))"

text \<open>The body of the loop of \<open>project_list\<close> for one entry of the projects directory.\<close>

definition list_entry :: "env \<Rightarrow> world \<Rightarrow> path \<Rightarrow> string list" where
  "list_entry ev w project_dir =
     (if is_dir w project_dir \<and> exists w (project_dir @ [''metadata.json''])
      then (case Project_load ev w project_dir of
              Inr proj \<Rightarrow> [''- '' @ py_str (name proj) @ '' ('' @ py_str (created_at proj) @ ''): ''
                           @ path_str (path proj)]
            | Inl _ \<Rightarrow> [''- (invalid): '' @ path_str project_dir])
      else [])"

text \<open>\<open>project_list\<close>; it changes nothing and does not read its context.\<close>

definition project_list :: "env \<Rightarrow> world \<Rightarrow> exn + string" where
  "project_list ev w =
     (case iterdir w PROJECTS_DIR of
        Inl e \<Rightarrow> Inl e
      | Inr ds \<Rightarrow>
         (let projects = concat (map (list_entry ev w) (sorted_reverse ds)) in
          if projects = [] then Inr ''No projects found.''
          else Inr (''Projects:'' @ [NL] @ join [NL] projects)))"

section \<open>Notions used to state the properties\<close>


text \<open>
  Appending to the activity log cannot fail: no project is active, or the \<open>logs\<close>
  directory of the active project exists and \<open>project.log\<close> is not a directory.
\<close>

definition log_writable :: "world \<Rightarrow> AppContext option \<Rightarrow> bool" where
  "log_writable w ctx =
     (case get_project_optional ctx of
        None \<Rightarrow> True
      | Some p \<Rightarrow> is_dir w (path p @ [''logs'']) \<and> \<not> is_dir w (path p @ [''logs'', ''project.log'']))"

text \<open>The action kinds that \<open>run_actions\<close> recognizes.\<close>

definition known_kinds :: "pyval list" where
  "known_kinds = [VStr ''press_keys'', VStr ''type_text'', VStr ''click'', VStr ''move_mouse'', VStr ''wait'']"

section \<open>A sample machine and project\<close>

text \<open>
  A machine that accepts every command silently, except that the connection drops on the
  key combination \<open>ctrl+l\<close> and that \<open>ls /nope\<close> exits with status 2.
\<close>

definition sample_vm :: env where
  \<open>sample_vm = \<lparr>
     vm_display = '':0'',
     ssh_run = (\<lambda>hist cmd check.
        if cmd = ''DISPLAY=:0 xdotool key ctrl+l'' then Inl (RemoteError ''Connection lost'')
        else if cmd = ''ls /nope'' then
          (if check then Inl (RemoteError ''Process exited with non-zero exit status 2'')
           else Inr \<lparr>stdout = [], stderr = ''ls: cannot access /nope'', returncode = 2\<rparr>)
        else Inr \<lparr>stdout = [], stderr = [], returncode = 0\<rparr>),
     clock = (\<lambda>n. \<lparr>year = 2024, month = 1, day = 2, hour = 3, minute = 4, second = n mod 60\<rparr>),
     json_loads = (\<lambda>s.
        if s = ''{"name": "demo", "created_at": "20240102-030400", "description": ""}''
        then Inr (VDict [(''name'', VStr ''demo''), (''created_at'', VStr ''20240102-030400''),
                         (''description'', VStr [])])
        else Inl (ValueError ''Expecting value''))\<rparr>\<close>

definition demo_path :: path where
  "demo_path = [''data'', ''projects'', ''20240102-030400_demo'']"

definition demo :: Project where
  "demo = \<lparr>name = VStr ''demo'', path = demo_path, created_at = VStr ''20240102-030400'',
            description = VStr []\<rparr>"

text \<open>
  The projects directory holds the demo project, as \<open>Project.create\<close> leaves it, and a
  second directory \<open>20240105-000000_scratch\<close> without \<open>metadata.json\<close>.
\<close>

definition demo_world :: world where
  \<open>demo_world = \<lparr>
     sent = [], slept = [],
     dirs = [[''data''], [''data'', ''projects''], demo_path,
             demo_path @ [''screenshots''], demo_path @ [''logs''],
             demo_path @ [''results''], demo_path @ [''advice''],
             [''data'', ''projects'', ''20240105-000000_scratch'']],
     files = [(demo_path @ [''metadata.json''],
                 ''{"name": "demo", "created_at": "20240102-030400", "description": ""}''),
              (demo_path @ [''logs'', ''project.log''],
                 ''[2024-01-02 03:04:00] [INFO] Project initialized'' @ [NL])],
     ticks = 0\<rparr>\<close>

text \<open>The same world after a note logged with a lower-case level and an error.\<close>

definition noted_world :: world where
  \<open>noted_world = demo_world\<lparr>files :=
     [(demo_path @ [''metadata.json''],
         ''{"name": "demo", "created_at": "20240102-030400", "description": ""}''),
      (demo_path @ [''logs'', ''project.log''],
         ''[2024-01-02 03:04:00] [INFO] Project initialized'' @ [NL]
         @ ''[2024-01-02 03:04:01] [info] a quiet note'' @ [NL]
         @ ''[2024-01-02 03:04:02] [ERROR] ERROR in ssh_execute: boom'' @ [NL])]\<rparr>\<close>

definition demo_ctx :: "AppContext option" where
  "demo_ctx = Some \<lparr>project = Some demo\<rparr>"

text \<open>A context whose active project has lost its directory.\<close>

definition lost_ctx :: "AppContext option" where
  "lost_ctx = Some \<lparr>project = Some (demo\<lparr>path := [''data'', ''projects'', ''gone'']\<rparr>)\<rparr>"

definition no_project_ctx :: "AppContext option" where
  "no_project_ctx = Some \<lparr>project = None\<rparr>"

section \<open>Batches stop at the first failure\<close>






lemma lookup_error_OSError: "\<exists>m. lookup_error w p = OSError m"
  by (simp add: lookup_error_def no_such_file_def not_a_directory_def split: list.splits)

lemma append_text_effect:
  "append_text p s w = (r, w1) \<Longrightarrow>
   sent w1 = sent w \<and> slept w1 = slept w \<and> dirs w1 = dirs w \<and> ticks w1 = ticks w
   \<and> (r = Inr () \<or> (\<exists>m. r = Inl (OSError m)))
   \<and> (is_dir w (butlast p) \<and> \<not> is_dir w p \<longrightarrow> r = Inr ())"
  using lookup_error_OSError [of w p]
  by (auto simp: append_text_def is_a_directory_def split: if_splits)

lemma Project_log_effect:
  "Project_log ev p msg lvl w = (r, w1) \<Longrightarrow>
   sent w1 = sent w \<and> slept w1 = slept w \<and> dirs w1 = dirs w
   \<and> (r = Inr () \<or> (\<exists>m. r = Inl (OSError m)))
   \<and> (is_dir w (path p @ [''logs'']) \<and> \<not> is_dir w (path p @ [''logs'', ''project.log'']) \<longrightarrow> r = Inr ())"
  unfolding Project_log_def io_bind_def utcnow_def Let_def
  by (auto dest!: append_text_effect simp: is_dir_def butlast_append)

lemma log_error_effect:
  "log_error ev ctx tool err w = (r, w1) \<Longrightarrow>
   sent w1 = sent w \<and> slept w1 = slept w \<and> dirs w1 = dirs w
   \<and> (r = Inr () \<or> (\<exists>m. r = Inl (OSError m)))
   \<and> (log_writable w ctx \<longrightarrow> r = Inr ())"
  unfolding log_error_def log_writable_def
  by (auto split: option.splits simp: io_return_def dest!: Project_log_effect)

lemma log_tool_call_effect:
  "log_tool_call ev ctx tool params res w = (r, w1) \<Longrightarrow>
   sent w1 = sent w \<and> slept w1 = slept w \<and> dirs w1 = dirs w
   \<and> (r = Inr () \<or> (\<exists>m. r = Inl (OSError m)))
   \<and> (log_writable w ctx \<longrightarrow> r = Inr ())"
  unfolding log_tool_call_def log_writable_def Let_def
  by (auto split: option.splits simp: io_return_def dest!: Project_log_effect)

lemma log_writable_cong: "dirs w1 = dirs w \<Longrightarrow> log_writable w1 ctx = log_writable w ctx"
  by (simp add: log_writable_def is_dir_def split: option.splits)









section \<open>Unknown action kinds do not stop a batch\<close>

lemma try_action_unknown:
  assumes "dict_get a ''action'' VNone \<notin> set known_kinds"
  shows "try_action ev i a w
       = (Inr (str_nat (i + 1) @ ''. UNKNOWN ACTION: '' @ py_str (dict_get a ''action'' VNone)), w)"
  using assms by (simp add: try_action_def known_kinds_def io_return_def Let_def)

text \<open>
  C4. An element whose \<open>action\<close> value is none of the five recognized kinds appends the
  entry \<open>UNKNOWN ACTION\<close>, which is not an error entry, changes nothing, and the loop
  goes on with the next element. In particular the batch of such an element followed by
  \<open>type_text("hi")\<close>, on a machine that accepts the typing command, returns the summary of
  exactly two entries, neither of them an error entry.
\<close>

theorem unknown_action_continues:
  assumes unk: "dict_get a ''action'' VNone \<notin> set known_kinds"
  shows \<open>run_loop ev ctx i (a # rest) results w
          = run_loop ev ctx (i + 1) rest
              (results @ [str_nat (i + 1) @ ''. UNKNOWN ACTION: '' @ py_str (dict_get a ''action'' VNone)]) w
       \<and> \<not> prefix (str_nat (i + 1) @ ''. ERROR in '')
              (str_nat (i + 1) @ ''. UNKNOWN ACTION: '' @ py_str (dict_get a ''action'' VNone))
       \<and> \<not> prefix ''2. ERROR in '' ''2. type_text (2 chars)''
       \<and> ((\<exists>r. ssh_run ev (sent w) (''DISPLAY='' @ vm_display ev @ '' xdotool type --delay 10 "hi"'') True = Inr r)
            \<and> log_writable w (Some c) \<longrightarrow>
          fst (run_actions ev (Some c) [a, [(''action'', VStr ''type_text''), (''text'', VStr ''hi'')]] w)
            = Inr (summary [''1. UNKNOWN ACTION: '' @ py_str (dict_get a ''action'' VNone),
                            ''2. type_text (2 chars)'']))\<close>
proof (intro conjI impI)
  show "run_loop ev ctx i (a # rest) results w
          = run_loop ev ctx (i + 1) rest
              (results @ [str_nat (i + 1) @ ''. UNKNOWN ACTION: '' @ py_str (dict_get a ''action'' VNone)]) w"
    by (simp add: try_action_unknown [OF unk])
  show "\<not> prefix (str_nat (i + 1) @ ''. ERROR in '')
              (str_nat (i + 1) @ ''. UNKNOWN ACTION: '' @ py_str (dict_get a ''action'' VNone))"
    by simp
  show "\<not> prefix ''2. ERROR in '' ''2. type_text (2 chars)''"
    by simp
next
  let ?hi = "[(''action'', VStr ''type_text''), (''text'', VStr ''hi'')]"
  let ?cmd = \<open>''DISPLAY='' @ vm_display ev @ '' xdotool type --delay 10 "hi"''\<close>
  let ?entries = "[''1. UNKNOWN ACTION: '' @ py_str (dict_get a ''action'' VNone), ''2. type_text (2 chars)'']"
  assume h: "(\<exists>r. ssh_run ev (sent w) ?cmd True = Inr r) \<and> log_writable w (Some c)"
  then obtain r where r: "ssh_run ev (sent w) ?cmd True = Inr r" by blast
  have one: "str_nat (Suc 0) = ''1''" and two: "str_nat (Suc (Suc 0)) = ''2''"
    by (simp_all add: str_nat.simps digit_char_def)
  have second: "try_action ev 1 ?hi w = (Inr ''2. type_text (2 chars)'', w\<lparr>sent := sent w @ [?cmd]\<rparr>)"
    using r by (simp add: try_action_def dict_get_def io_bind_def io_return_def run_vm_cmd_def
        replace_char_def two Let_def)
  have loop: "run_loop ev (Some c) 0 [a, ?hi] [] w = (Inr ?entries, w\<lparr>sent := sent w @ [?cmd]\<rparr>)"
    using try_action_unknown [OF unk, of ev 0 w] second by (simp add: one)
  let ?w1 = "w\<lparr>sent := sent w @ [?cmd]\<rparr>"
  let ?params = "[(''count'', VInt (int (length [a, ?hi])))]"
  let ?res = "Some (''executed '' @ str_nat (length ?entries) @ '' actions'')"
  obtain r2 w2 where lt: "log_tool_call ev (Some c) ''run_actions'' ?params ?res ?w1 = (r2, w2)"
    by (cases "log_tool_call ev (Some c) ''run_actions'' ?params ?res ?w1")
  have "log_writable ?w1 (Some c)"
    using h log_writable_cong [of ?w1 w "Some c"] by simp
  with log_tool_call_effect [OF lt] have "r2 = Inr ()" by simp
  with loop lt show "fst (run_actions ev (Some c) [a, ?hi] w) = Inr (summary ?entries)"
    by (simp add: run_actions_def io_bind_def io_return_def)
qed

theorem unknown_action_continues_witness:
  \<open>dict_get [(''action'', VStr ''zap'')] ''action'' VNone \<notin> set known_kinds
   \<and> fst (run_actions sample_vm demo_ctx
        [[(''action'', VStr ''zap'')], [(''action'', VStr ''type_text''), (''text'', VStr ''hi'')]] demo_world)
      = Inr (''Executed 2 actions:'' @ [NL] @ ''1. UNKNOWN ACTION: zap'' @ [NL] @ ''2. type_text (2 chars)'')\<close>
proof -
  let ?a = "[(''action'', VStr ''zap'')]"
  have h: "dict_get ?a ''action'' VNone \<notin> set known_kinds"
    by (simp add: dict_get_def known_kinds_def)
  have r: \<open>\<exists>r. ssh_run sample_vm (sent demo_world)
              (''DISPLAY='' @ vm_display sample_vm @ '' xdotool type --delay 10 "hi"'') True = Inr r\<close>
    by (simp add: sample_vm_def)
  have lw: "log_writable demo_world (Some \<lparr>project = Some demo\<rparr>)"
    by code_simp
  have sm: "summary [''1. UNKNOWN ACTION: '' @ py_str (dict_get ?a ''action'' VNone), ''2. type_text (2 chars)'']
      = ''Executed 2 actions:'' @ [NL] @ ''1. UNKNOWN ACTION: zap'' @ [NL] @ ''2. type_text (2 chars)''"
    by code_simp
  from unknown_action_continues [OF h, where ev = sample_vm and w = demo_world
         and c = "\<lparr>project = Some demo\<rparr>"] r lw
  have "fst (run_actions sample_vm (Some \<lparr>project = Some demo\<rparr>)
          [?a, [(''action'', VStr ''type_text''), (''text'', VStr ''hi'')]] demo_world)
      = Inr (summary [''1. UNKNOWN ACTION: '' @ py_str (dict_get ?a ''action'' VNone), ''2. type_text (2 chars)''])"
    by blast
  then show ?thesis
    unfolding demo_ctx_def using h by (simp only: sm simp_thms)
qed

section \<open>Unknown pointer modes and buttons\<close>

lemma run_vm_cmd_eq:
  "run_vm_cmd ev cmd w =
     ((case ssh_run ev (sent w) cmd True of Inl e \<Rightarrow> Inl e | Inr r \<Rightarrow> Inr (py_strip (stdout r))),
      w\<lparr>sent := sent w @ [cmd]\<rparr>)"
  by (simp add: run_vm_cmd_def split: sum.splits)

text \<open>
  C2, as the code has it. The single-action tools reject an unknown value before anything
  is sent: \<open>move_mouse\<close> with a mode other than \<open>absolute\<close> and \<open>relative\<close>, and \<open>click\<close>
  with a button other than \<open>left\<close>, \<open>middle\<close> and \<open>right\<close>, raise \<open>ValueError\<close> and leave the
  world as it was. A batch element is not validated: a \<open>click\<close> element with an unknown
  button name sends the click command with button index 1, and a \<open>move_mouse\<close> element with
  any mode other than \<open>absolute\<close> sends the relative move; the outcome of the element is
  the outcome of that command.
\<close>

theorem unknown_mode_or_button:
  \<open>(mode \<noteq> ''absolute'' \<and> mode \<noteq> ''relative'' \<longrightarrow>
      move_mouse ev (Some c) x y mode w
        = (Inl (ValueError (''mode must be '' @ [SQ] @ ''absolute'' @ [SQ] @ '' or '' @ [SQ] @ ''relative'' @ [SQ])), w))
   \<and> (button \<noteq> ''left'' \<and> button \<noteq> ''middle'' \<and> button \<noteq> ''right'' \<longrightarrow>
      click ev (Some c) button count w = (Inl (ValueError ''button must be left/middle/right''), w))
   \<and> (dict_get a ''action'' VNone = VStr ''click'' \<and> dict_get a ''button'' (VStr ''left'') = VStr button
        \<and> button \<noteq> ''left'' \<and> button \<noteq> ''middle'' \<and> button \<noteq> ''right'' \<longrightarrow>
      sent (snd (try_action ev i a w))
        = sent w @ [''DISPLAY='' @ vm_display ev @ '' xdotool click --repeat ''
                    @ py_str (dict_get a ''count'' (VInt 1)) @ '' 1'']
      \<and> fst (try_action ev i a w)
        = (case ssh_run ev (sent w) (''DISPLAY='' @ vm_display ev @ '' xdotool click --repeat ''
                    @ py_str (dict_get a ''count'' (VInt 1)) @ '' 1'') True of
             Inl e \<Rightarrow> Inl e
           | Inr _ \<Rightarrow> Inr (str_nat (i + 1) @ ''. click '' @ button @ '' x''
                           @ py_str (dict_get a ''count'' (VInt 1)))))
   \<and> (dict_get a ''action'' VNone = VStr ''move_mouse''
        \<and> dict_get a ''mode'' (VStr ''absolute'') \<noteq> VStr ''absolute'' \<longrightarrow>
      sent (snd (try_action ev i a w))
        = sent w @ [''DISPLAY='' @ vm_display ev @ '' xdotool mousemove_relative --sync ''
                    @ py_str (dict_get a ''x'' (VInt 0)) @ '' '' @ py_str (dict_get a ''y'' (VInt 0))]
      \<and> fst (try_action ev i a w)
        = (case ssh_run ev (sent w) (''DISPLAY='' @ vm_display ev @ '' xdotool mousemove_relative --sync ''
                    @ py_str (dict_get a ''x'' (VInt 0)) @ '' '' @ py_str (dict_get a ''y'' (VInt 0))) True of
             Inl e \<Rightarrow> Inl e
           | Inr _ \<Rightarrow> Inr (str_nat (i + 1) @ ''. move_mouse ('' @ py_str (dict_get a ''x'' (VInt 0))
                           @ '', '' @ py_str (dict_get a ''y'' (VInt 0)) @ '') [''
                           @ py_str (dict_get a ''mode'' (VStr ''absolute'')) @ '']'')))\<close>
proof (intro conjI impI)
  assume "mode \<noteq> ''absolute'' \<and> mode \<noteq> ''relative''"
  then show "move_mouse ev (Some c) x y mode w
        = (Inl (ValueError (''mode must be '' @ [SQ] @ ''absolute'' @ [SQ] @ '' or '' @ [SQ] @ ''relative'' @ [SQ])), w)"
    by (simp add: move_mouse_def io_raise_def)
next
  assume "button \<noteq> ''left'' \<and> button \<noteq> ''middle'' \<and> button \<noteq> ''right''"
  then show "click ev (Some c) button count w = (Inl (ValueError ''button must be left/middle/right''), w)"
    by (simp add: click_def button_map_def io_raise_def)
next
  assume h: "dict_get a ''action'' VNone = VStr ''click'' \<and> dict_get a ''button'' (VStr ''left'') = VStr button
        \<and> button \<noteq> ''left'' \<and> button \<noteq> ''middle'' \<and> button \<noteq> ''right''"
  let ?cmd = "''DISPLAY='' @ vm_display ev @ '' xdotool click --repeat ''
                    @ py_str (dict_get a ''count'' (VInt 1)) @ '' 1''"
  have one: "str_nat (Suc 0) = ''1''"
    by (simp add: str_nat.simps digit_char_def)
  have t: "try_action ev i a w = io_bind (run_vm_cmd ev ?cmd) (\<lambda>_.
            io_return (str_nat (i + 1) @ ''. click '' @ button @ '' x''
                           @ py_str (dict_get a ''count'' (VInt 1)))) w"
    using h by (simp add: try_action_def batch_button_def button_map_def Let_def one py_str_def)
  show "sent (snd (try_action ev i a w)) = sent w @ [?cmd]"
    unfolding t by (simp add: io_bind_def io_return_def run_vm_cmd_eq split: sum.splits)
  show "fst (try_action ev i a w)
        = (case ssh_run ev (sent w) ?cmd True of
             Inl e \<Rightarrow> Inl e
           | Inr _ \<Rightarrow> Inr (str_nat (i + 1) @ ''. click '' @ button @ '' x''
                           @ py_str (dict_get a ''count'' (VInt 1))))"
    unfolding t by (simp add: io_bind_def io_return_def run_vm_cmd_eq split: sum.splits)
next
  assume h: "dict_get a ''action'' VNone = VStr ''move_mouse''
        \<and> dict_get a ''mode'' (VStr ''absolute'') \<noteq> VStr ''absolute''"
  let ?cmd = "''DISPLAY='' @ vm_display ev @ '' xdotool mousemove_relative --sync ''
                    @ py_str (dict_get a ''x'' (VInt 0)) @ '' '' @ py_str (dict_get a ''y'' (VInt 0))"
  have t: "try_action ev i a w = io_bind (run_vm_cmd ev ?cmd) (\<lambda>_.
            io_return (str_nat (i + 1) @ ''. move_mouse ('' @ py_str (dict_get a ''x'' (VInt 0))
                           @ '', '' @ py_str (dict_get a ''y'' (VInt 0)) @ '') [''
                           @ py_str (dict_get a ''mode'' (VStr ''absolute'')) @ '']'')) w"
    using h by (simp add: try_action_def Let_def)
  show "sent (snd (try_action ev i a w)) = sent w @ [?cmd]"
    unfolding t by (simp add: io_bind_def io_return_def run_vm_cmd_eq split: sum.splits)
  show "fst (try_action ev i a w)
        = (case ssh_run ev (sent w) ?cmd True of
             Inl e \<Rightarrow> Inl e
           | Inr _ \<Rightarrow> Inr (str_nat (i + 1) @ ''. move_mouse ('' @ py_str (dict_get a ''x'' (VInt 0))
                           @ '', '' @ py_str (dict_get a ''y'' (VInt 0)) @ '') [''
                           @ py_str (dict_get a ''mode'' (VStr ''absolute'')) @ '']''))"
    unfolding t by (simp add: io_bind_def io_return_def run_vm_cmd_eq split: sum.splits)
qed

theorem batch_unknown_button_counterexample:
  \<open>run_actions sample_vm no_project_ctx [[(''action'', VStr ''click''), (''button'', VStr ''banana'')]] demo_world
     = (Inr (''Executed 1 actions:'' @ [NL] @ ''1. click banana x1''),
        demo_world\<lparr>sent := [''DISPLAY=:0 xdotool click --repeat 1 1'']\<rparr>)\<close>
  by code_simp


theorem unknown_mode_or_button_witness:
  \<open>move_mouse sample_vm demo_ctx 1 2 ''diagonal'' demo_world
      = (Inl (ValueError (''mode must be '' @ [SQ] @ ''absolute'' @ [SQ] @ '' or '' @ [SQ] @ ''relative'' @ [SQ])),
         demo_world)
   \<and> click sample_vm demo_ctx ''banana'' 1 demo_world
      = (Inl (ValueError ''button must be left/middle/right''), demo_world)
   \<and> dict_get [(''action'', VStr ''click''), (''button'', VStr ''banana'')] ''button'' (VStr ''left'')
      = VStr ''banana''
   \<and> sent (snd (try_action sample_vm 0 [(''action'', VStr ''click''), (''button'', VStr ''banana'')] demo_world))
      = [''DISPLAY=:0 xdotool click --repeat 1 1'']
   \<and> dict_get [(''action'', VStr ''move_mouse''), (''x'', VInt 5), (''y'', VInt 6), (''mode'', VStr ''diagonal'')]
        ''mode'' (VStr ''absolute'') \<noteq> VStr ''absolute''
   \<and> sent (snd (try_action sample_vm 0
        [(''action'', VStr ''move_mouse''), (''x'', VInt 5), (''y'', VInt 6), (''mode'', VStr ''diagonal'')]
        demo_world))
      = [''DISPLAY=:0 xdotool mousemove_relative --sync 5 6'']\<close>
proof -
  let ?c = "\<lparr>project = Some demo\<rparr>"
  let ?a = "[(''action'', VStr ''click''), (''button'', VStr ''banana'')]"
  let ?b = "[(''action'', VStr ''move_mouse''), (''x'', VInt 5), (''y'', VInt 6), (''mode'', VStr ''diagonal'')]"
  have m: "''diagonal'' \<noteq> ''absolute'' \<and> ''diagonal'' \<noteq> ''relative''"
    by simp
  have b: "''banana'' \<noteq> ''left'' \<and> ''banana'' \<noteq> ''middle'' \<and> ''banana'' \<noteq> ''right''"
    by simp
  have ha: "dict_get ?a ''action'' VNone = VStr ''click'' \<and> dict_get ?a ''button'' (VStr ''left'') = VStr ''banana''"
    by (simp add: dict_get_def)
  have hb: "dict_get ?b ''action'' VNone = VStr ''move_mouse''
      \<and> dict_get ?b ''mode'' (VStr ''absolute'') \<noteq> VStr ''absolute''"
    by (simp add: dict_get_def)
  note A = unknown_mode_or_button [where mode = "''diagonal''" and button = "''banana''" and a = ?a
      and ev = sample_vm and c = ?c and w = demo_world and x = 1 and y = 2 and count = 1 and i = 0]
  note B = unknown_mode_or_button [where mode = "''diagonal''" and button = "''banana''" and a = ?b
      and ev = sample_vm and c = ?c and w = demo_world and x = 1 and y = 2 and count = 1 and i = 0]
  from A m have 1: "move_mouse sample_vm (Some ?c) 1 2 ''diagonal'' demo_world
      = (Inl (ValueError (''mode must be '' @ [SQ] @ ''absolute'' @ [SQ] @ '' or '' @ [SQ] @ ''relative'' @ [SQ])),
         demo_world)"
    by blast
  from A b have 2: "click sample_vm (Some ?c) ''banana'' 1 demo_world
      = (Inl (ValueError ''button must be left/middle/right''), demo_world)"
    by blast
  from A ha b have "sent (snd (try_action sample_vm 0 ?a demo_world))
      = sent demo_world @ [''DISPLAY='' @ vm_display sample_vm @ '' xdotool click --repeat ''
                    @ py_str (dict_get ?a ''count'' (VInt 1)) @ '' 1'']"
    by blast
  also have "\<dots> = [''DISPLAY=:0 xdotool click --repeat 1 1'']"
    by code_simp
  finally have 3: "sent (snd (try_action sample_vm 0 ?a demo_world)) = [''DISPLAY=:0 xdotool click --repeat 1 1'']" .
  from B hb have "sent (snd (try_action sample_vm 0 ?b demo_world))
      = sent demo_world @ [''DISPLAY='' @ vm_display sample_vm @ '' xdotool mousemove_relative --sync ''
                    @ py_str (dict_get ?b ''x'' (VInt 0)) @ '' '' @ py_str (dict_get ?b ''y'' (VInt 0))]"
    by blast
  also have "\<dots> = [''DISPLAY=:0 xdotool mousemove_relative --sync 5 6'']"
    by code_simp
  finally have 4: "sent (snd (try_action sample_vm 0 ?b demo_world))
      = [''DISPLAY=:0 xdotool mousemove_relative --sync 5 6'']" .
  show ?thesis
    unfolding demo_ctx_def using 1 2 3 4 ha hb by blast
qed

section \<open>Typing text\<close>

lemma Project_log_fails:
  assumes "\<not> (is_dir w (path p @ [''logs'']) \<and> \<not> is_dir w (path p @ [''logs'', ''project.log'']))"
  shows "\<exists>m w1. Project_log ev p msg lvl w = (Inl (OSError m), w1)
           \<and> sent w1 = sent w \<and> slept w1 = slept w \<and> dirs w1 = dirs w"
proof -
  let ?w0 = "w\<lparr>ticks := Suc (ticks w)\<rparr>"
  let ?lf = "path p @ [''logs'', ''project.log'']"
  obtain m where m: "lookup_error ?w0 ?lf = OSError m"
    using lookup_error_OSError by blast
  show ?thesis
    using assms m unfolding Project_log_def io_bind_def utcnow_def Let_def append_text_def
    by (auto simp: is_dir_def butlast_append is_a_directory_def)
qed

lemma log_tool_call_fails:
  assumes "\<not> log_writable w ctx"
  shows "\<exists>m w1. log_tool_call ev ctx tool params res w = (Inl (OSError m), w1)
           \<and> sent w1 = sent w \<and> slept w1 = slept w \<and> dirs w1 = dirs w"
  using assms unfolding log_tool_call_def log_writable_def Let_def
  by (auto split: option.splits intro!: Project_log_fails)

lemma log_error_fails:
  assumes "\<not> log_writable w ctx"
  shows "\<exists>m w1. log_error ev ctx tool err w = (Inl (OSError m), w1)
           \<and> sent w1 = sent w \<and> slept w1 = slept w \<and> dirs w1 = dirs w"
  using assms unfolding log_error_def log_writable_def
  by (auto split: option.splits intro!: Project_log_fails)

lemma log_tool_call_ok:
  assumes "log_writable w ctx"
  shows "\<exists>w1. log_tool_call ev ctx tool params res w = (Inr (), w1)
           \<and> sent w1 = sent w \<and> slept w1 = slept w \<and> dirs w1 = dirs w"
proof -
  obtain r w1 where lt: "log_tool_call ev ctx tool params res w = (r, w1)"
    by (cases "log_tool_call ev ctx tool params res w")
  from log_tool_call_effect [OF lt] assms lt show ?thesis by simp
qed

lemma log_error_ok:
  assumes "log_writable w ctx"
  shows "\<exists>w1. log_error ev ctx tool err w = (Inr (), w1)
           \<and> sent w1 = sent w \<and> slept w1 = slept w \<and> dirs w1 = dirs w"
proof -
  obtain r w1 where lt: "log_error ev ctx tool err w = (r, w1)"
    by (cases "log_error ev ctx tool err w")
  from log_error_effect [OF lt] assms lt show ?thesis by simp
qed

lemma log_writable_sent [simp]: "log_writable (w\<lparr>sent := s\<rparr>) ctx = log_writable w ctx"
  by (rule log_writable_cong) simp

text \<open>
  C5, as the code has it. \<open>type_text\<close> on the twelve characters \<open>He said "hi"\<close> sends one
  command, in which each of the two quote characters of the text is preceded by a
  backslash inside the quoted literal; when the machine accepts the command and the log
  can be appended to, it returns \<open>Typed 12 characters\<close>: the count is the length of the
  text before escaping.
\<close>

theorem type_text_quoted:
  \<open>sent (snd (type_text ev (Some c) ''He said "hi"'' w))
      = sent w @ [''DISPLAY='' @ vm_display ev @ '' xdotool type --delay 10 ''
                  @ ''"He said '' @ [BSL] @ ''"hi'' @ [BSL] @ ''""'']
   \<and> ((\<exists>r. ssh_run ev (sent w)
            (''DISPLAY='' @ vm_display ev @ '' xdotool type --delay 10 ''
               @ ''"He said '' @ [BSL] @ ''"hi'' @ [BSL] @ ''""'') True = Inr r)
        \<and> log_writable w (Some c) \<longrightarrow>
       fst (type_text ev (Some c) ''He said "hi"'' w) = Inr ''Typed 12 characters'')\<close>
proof (intro conjI impI)
  let ?text = \<open>''He said "hi"''\<close>
  let ?cmd = \<open>''DISPLAY='' @ vm_display ev @ '' xdotool type --delay 10 ''
               @ ''"He said '' @ [BSL] @ ''"hi'' @ [BSL] @ ''""''\<close>
  have len: "str_nat (length ?text) = ''12''"
    by (simp add: str_nat.simps digit_char_def)
  have t: "type_text ev (Some c) ?text w =
      io_bind (run_vm_cmd ev ?cmd) (\<lambda>_.
        io_bind (log_tool_call ev (Some c) ''type_text'' [(''text'', VStr ?text)] None) (\<lambda>_.
          io_return ''Typed 12 characters'')) w"
    unfolding type_text_def Let_def len by (simp add: replace_char_def)
  let ?w1 = "w\<lparr>sent := sent w @ [?cmd]\<rparr>"
  obtain r2 w2 where lt: "log_tool_call ev (Some c) ''type_text'' [(''text'', VStr ?text)] None ?w1 = (r2, w2)"
    by (cases "log_tool_call ev (Some c) ''type_text'' [(''text'', VStr ?text)] None ?w1")
  note e = log_tool_call_effect [OF lt]
  show "sent (snd (type_text ev (Some c) ?text w)) = sent w @ [?cmd]"
    unfolding t using lt e
    by (simp add: io_bind_def io_return_def run_vm_cmd_eq split: sum.splits)
  assume "(\<exists>r. ssh_run ev (sent w) ?cmd True = Inr r) \<and> log_writable w (Some c)"
  then show "fst (type_text ev (Some c) ?text w) = Inr ''Typed 12 characters''"
    unfolding t using lt e
    by (auto simp: io_bind_def io_return_def run_vm_cmd_eq split: sum.splits)
qed

theorem type_text_quoted_counterexample:
  \<open>fst (type_text sample_vm demo_ctx ''He said "hi"'' demo_world) = Inr ''Typed 12 characters''
   \<and> fst (type_text sample_vm demo_ctx ''He said "hi"'' demo_world) \<noteq> Inr ''Typed 13 characters''\<close>
  by code_simp

theorem type_text_quoted_witness:
  \<open>ssh_run sample_vm (sent demo_world)
       (''DISPLAY='' @ vm_display sample_vm @ '' xdotool type --delay 10 ''
          @ ''"He said '' @ [BSL] @ ''"hi'' @ [BSL] @ ''""'') True
     = Inr \<lparr>stdout = [], stderr = [], returncode = 0\<rparr>
   \<and> log_writable demo_world demo_ctx
   \<and> fst (type_text sample_vm demo_ctx ''He said "hi"'' demo_world) = Inr ''Typed 12 characters''
   \<and> sent (snd (type_text sample_vm demo_ctx ''He said "hi"'' demo_world))
     = [''DISPLAY=:0 xdotool type --delay 10 "He said '' @ [BSL] @ ''"hi'' @ [BSL] @ ''""'']\<close>
proof -
  let ?c = "\<lparr>project = Some demo\<rparr>"
  let ?cmd = \<open>''DISPLAY='' @ vm_display sample_vm @ '' xdotool type --delay 10 ''
          @ ''"He said '' @ [BSL] @ ''"hi'' @ [BSL] @ ''""''\<close>
  have r: "ssh_run sample_vm (sent demo_world) ?cmd True = Inr \<lparr>stdout = [], stderr = [], returncode = 0\<rparr>"
    by code_simp
  have lw: "log_writable demo_world (Some ?c)"
    by code_simp
  note T = type_text_quoted [where ev = sample_vm and c = ?c and w = demo_world]
  from T r lw have 1: \<open>fst (type_text sample_vm (Some ?c) ''He said "hi"'' demo_world) = Inr ''Typed 12 characters''\<close>
    by blast
  from T have \<open>sent (snd (type_text sample_vm (Some ?c) ''He said "hi"'' demo_world)) = sent demo_world @ [?cmd]\<close>
    by blast
  also have \<open>\<dots> = [''DISPLAY=:0 xdotool type --delay 10 "He said '' @ [BSL] @ ''"hi'' @ [BSL] @ ''""'']\<close>
    by code_simp
  finally have 2: \<open>sent (snd (type_text sample_vm (Some ?c) ''He said "hi"'' demo_world))
      = [''DISPLAY=:0 xdotool type --delay 10 "He said '' @ [BSL] @ ''"hi'' @ [BSL] @ ''""'']\<close> .
  show ?thesis
    unfolding demo_ctx_def using r lw 1 2 by blast
qed

section \<open>A failed log write and the outcome of the tool\<close>

text \<open>
  C9, as the code has it, for \<open>move_mouse\<close> with an active or inactive project. The result
  text is built before the log call, but the log call stands between it and the
  \<open>return\<close>. When the command itself raises, that error reaches the caller and no log
  write is attempted. When the command succeeds, it has been sent; the caller receives
  the result text if the log can be appended to, and receives the \<open>OSError\<close> of the log
  write in place of the result if it cannot.
\<close>

theorem move_mouse_log_failure:
  assumes mode: "mode = ''absolute'' \<or> mode = ''relative''"
      and cmd: "cmd = ''DISPLAY='' @ vm_display ev
                  @ (if mode = ''absolute'' then '' xdotool mousemove --sync ''
                     else '' xdotool mousemove_relative --sync '')
                  @ str_int x @ '' '' @ str_int y"
  shows "(\<forall>e. ssh_run ev (sent w) cmd True = Inl e \<longrightarrow>
            move_mouse ev (Some c) x y mode w = (Inl e, w\<lparr>sent := sent w @ [cmd]\<rparr>))
       \<and> (\<forall>r. ssh_run ev (sent w) cmd True = Inr r \<longrightarrow>
            sent (snd (move_mouse ev (Some c) x y mode w)) = sent w @ [cmd]
            \<and> (log_writable w (Some c) \<longrightarrow>
                 fst (move_mouse ev (Some c) x y mode w)
                   = Inr (''Mouse moved to ('' @ str_int x @ '', '' @ str_int y @ '') ['' @ mode @ '']''))
            \<and> (\<not> log_writable w (Some c) \<longrightarrow>
                 (\<exists>m. fst (move_mouse ev (Some c) x y mode w) = Inl (OSError m))))"
proof -
  let ?result = "''Mouse moved to ('' @ str_int x @ '', '' @ str_int y @ '') ['' @ mode @ '']''"
  let ?params = "[(''x'', VInt x), (''y'', VInt y), (''mode'', VStr mode)]"
  let ?w1 = "w\<lparr>sent := sent w @ [cmd]\<rparr>"
  have t: "move_mouse ev (Some c) x y mode w =
      io_bind (run_vm_cmd ev cmd) (\<lambda>_.
        io_bind (log_tool_call ev (Some c) ''move_mouse'' ?params None) (\<lambda>_.
          io_return ?result)) w"
    using mode cmd by (auto simp: move_mouse_def Let_def)
  have fail: "move_mouse ev (Some c) x y mode w = (Inl e, ?w1)"
    if "ssh_run ev (sent w) cmd True = Inl e" for e
    unfolding t using that by (simp add: io_bind_def run_vm_cmd_eq)
  have ok: "move_mouse ev (Some c) x y mode w =
      io_bind (log_tool_call ev (Some c) ''move_mouse'' ?params None) (\<lambda>_. io_return ?result) ?w1"
    if "ssh_run ev (sent w) cmd True = Inr r" for r
    unfolding t using that by (simp add: io_bind_def run_vm_cmd_eq)
  have good: "fst (move_mouse ev (Some c) x y mode w) = Inr ?result
              \<and> sent (snd (move_mouse ev (Some c) x y mode w)) = sent w @ [cmd]"
    if "ssh_run ev (sent w) cmd True = Inr r" and "log_writable w (Some c)" for r
  proof -
    from that(2) have "log_writable ?w1 (Some c)" by simp
    from log_tool_call_ok [OF this, of ev "''move_mouse''" ?params None]
    show ?thesis unfolding ok [OF that(1)] by (auto simp: io_bind_def io_return_def)
  qed
  have bad: "(\<exists>m. fst (move_mouse ev (Some c) x y mode w) = Inl (OSError m))
              \<and> sent (snd (move_mouse ev (Some c) x y mode w)) = sent w @ [cmd]"
    if "ssh_run ev (sent w) cmd True = Inr r" and "\<not> log_writable w (Some c)" for r
  proof -
    from that(2) have "\<not> log_writable ?w1 (Some c)" by simp
    from log_tool_call_fails [OF this, of ev "''move_mouse''" ?params None]
    show ?thesis unfolding ok [OF that(1)] by (auto simp: io_bind_def io_return_def)
  qed
  show ?thesis
    using fail good bad by blast
qed

theorem move_mouse_log_failure_counterexample:
  \<open>move_mouse sample_vm lost_ctx 10 20 ''absolute'' demo_world
     = (Inl (OSError (''[Errno 2] No such file or directory: '' @ [SQ]
                      @ ''data/projects/gone/logs/project.log'' @ [SQ])),
        demo_world\<lparr>sent := [''DISPLAY=:0 xdotool mousemove --sync 10 20''], ticks := 1\<rparr>)
   \<and> fst (move_mouse sample_vm lost_ctx 10 20 ''absolute'' demo_world)
     \<noteq> Inr ''Mouse moved to (10, 20) [absolute]''\<close>
  by code_simp

theorem move_mouse_log_failure_witness:
  \<open>ssh_run sample_vm (sent demo_world) ''DISPLAY=:0 xdotool mousemove --sync 10 20'' True
     = Inr \<lparr>stdout = [], stderr = [], returncode = 0\<rparr>
   \<and> \<not> log_writable demo_world lost_ctx
   \<and> fst (move_mouse sample_vm lost_ctx 10 20 ''absolute'' demo_world)
     = Inl (OSError (''[Errno 2] No such file or directory: '' @ [SQ]
                      @ ''data/projects/gone/logs/project.log'' @ [SQ]))
   \<and> log_writable demo_world demo_ctx
   \<and> fst (move_mouse sample_vm demo_ctx 10 20 ''absolute'' demo_world)
     = Inr ''Mouse moved to (10, 20) [absolute]''
   \<and> sent (snd (move_mouse sample_vm demo_ctx 10 20 ''absolute'' demo_world))
     = [''DISPLAY=:0 xdotool mousemove --sync 10 20'']\<close>
proof -
  let ?cmd = "''DISPLAY=:0 xdotool mousemove --sync 10 20''"
  let ?lost = "\<lparr>project = Some (demo\<lparr>path := [''data'', ''projects'', ''gone'']\<rparr>)\<rparr>"
  let ?c = "\<lparr>project = Some demo\<rparr>"
  have m: "''absolute'' = ''absolute'' \<or> ''absolute'' = ''relative''"
    by simp
  have c: "?cmd = ''DISPLAY='' @ vm_display sample_vm
                  @ (if ''absolute'' = ''absolute'' then '' xdotool mousemove --sync ''
                     else '' xdotool mousemove_relative --sync '')
                  @ str_int 10 @ '' '' @ str_int 20"
    by code_simp
  have r: "ssh_run sample_vm (sent demo_world) ?cmd True = Inr \<lparr>stdout = [], stderr = [], returncode = 0\<rparr>"
    by code_simp
  have nlw: "\<not> log_writable demo_world (Some ?lost)"
    by code_simp
  have lw: "log_writable demo_world (Some ?c)"
    by code_simp
  have res: "''Mouse moved to ('' @ str_int 10 @ '', '' @ str_int 20 @ '') ['' @ ''absolute'' @ '']''
      = ''Mouse moved to (10, 20) [absolute]''"
    by code_simp
  from move_mouse_log_failure [OF m c, where w = demo_world and c = ?lost] r nlw
  obtain msg where "fst (move_mouse sample_vm (Some ?lost) 10 20 ''absolute'' demo_world) = Inl (OSError msg)"
    by blast
  moreover have "fst (move_mouse sample_vm (Some ?lost) 10 20 ''absolute'' demo_world)
     = Inl (OSError (''[Errno 2] No such file or directory: '' @ [SQ]
                      @ ''data/projects/gone/logs/project.log'' @ [SQ]))"
    by code_simp
  ultimately have 1: "fst (move_mouse sample_vm (Some ?lost) 10 20 ''absolute'' demo_world)
     = Inl (OSError (''[Errno 2] No such file or directory: '' @ [SQ]
                      @ ''data/projects/gone/logs/project.log'' @ [SQ]))"
    by simp
  from move_mouse_log_failure [OF m c, where w = demo_world and c = ?c] r lw
  have "fst (move_mouse sample_vm (Some ?c) 10 20 ''absolute'' demo_world)
     = Inr (''Mouse moved to ('' @ str_int 10 @ '', '' @ str_int 20 @ '') ['' @ ''absolute'' @ '']'')
     \<and> sent (snd (move_mouse sample_vm (Some ?c) 10 20 ''absolute'' demo_world)) = sent demo_world @ [?cmd]"
    by blast
  then have 2: "fst (move_mouse sample_vm (Some ?c) 10 20 ''absolute'' demo_world)
     = Inr ''Mouse moved to (10, 20) [absolute]''
     \<and> sent (snd (move_mouse sample_vm (Some ?c) 10 20 ''absolute'' demo_world)) = [?cmd]"
    unfolding res by (simp add: demo_world_def)
  show ?thesis
    unfolding demo_ctx_def lost_ctx_def using r nlw lw 1 2 by blast
qed

section \<open>Shell commands\<close>

lemma ssh_execute_try_effect:
  "ssh_execute_try ev ctx command w = (r, w1) \<Longrightarrow> dirs w1 = dirs w"
  unfolding ssh_execute_try_def Let_def io_bind_def io_return_def
  by (auto split: sum.splits if_splits prod.splits
      dest!: log_tool_call_effect log_error_effect)

lemma ssh_execute_unwritable:
  assumes "\<not> log_writable w (Some c)"
  shows "\<exists>m. fst (ssh_execute ev (Some c) command w) = Inl (OSError m)"
proof -
  obtain r w1 where t: "ssh_execute_try ev (Some c) command w = (r, w1)"
    by (cases "ssh_execute_try ev (Some c) command w")
  have nw: "\<not> log_writable (w\<lparr>sent := sent w @ [command]\<rparr>) (Some c)"
    using assms by simp
  have "\<exists>e. r = Inl e"
  proof (cases "ssh_run ev (sent w) command False")
    case (Inl e)
    with t show ?thesis by (auto simp: ssh_execute_try_def)
  next
    case (Inr res)
    show ?thesis
      using t Inr
        log_tool_call_fails [OF nw, of ev "''ssh_execute''" "[(''command'', VStr command)]"
          "Some (''exit_code='' @ str_int (returncode res))"]
        log_tool_call_fails [OF nw, of ev "''ssh_execute''" "[(''command'', VStr command)]"
          "Some ''success''"]
      by (auto simp: ssh_execute_try_def Let_def io_bind_def split: if_splits)
  qed
  then obtain e where r: "r = Inl e" by blast
  have "\<not> log_writable w1 (Some c)"
    using ssh_execute_try_effect [OF t] assms log_writable_cong [of w1 w "Some c"] by simp
  from log_error_fails [OF this, of ev "''ssh_execute''" "exn_str e"]
  show ?thesis
    using t r by (auto simp: ssh_execute_def io_catch_def io_bind_def)
qed

text \<open>
  C8, as the code has it. While no project is active or the log of the active project can
  be appended to, \<open>ssh_execute\<close> never raises: an exception of the connection becomes the
  text \<open>Error executing command\<close> with its message, and a command that exits nonzero
  becomes a report of its output, its error output (when there is any) and its exit code.
  When the log cannot be appended to, the log call inside the \<open>except\<close> clause raises, and
  that \<open>OSError\<close> reaches the caller whatever the command did.
\<close>

theorem ssh_execute_outcomes:
  "(log_writable w (Some c) \<longrightarrow>
      (\<forall>e. ssh_run ev (sent w) command False = Inl e \<longrightarrow>
         fst (ssh_execute ev (Some c) command w) = Inr (''Error executing command: '' @ exn_str e))
    \<and> (\<forall>r. ssh_run ev (sent w) command False = Inr r \<and> returncode r \<noteq> 0 \<longrightarrow>
         fst (ssh_execute ev (Some c) command w)
           = Inr (join [NL, NL]
                ((if stdout r \<noteq> [] then [''STDOUT:'' @ [NL] @ stdout r] else [])
                 @ (if stderr r \<noteq> [] then [''STDERR:'' @ [NL] @ stderr r] else [])
                 @ [''EXIT CODE: '' @ str_int (returncode r)])))
    \<and> (\<exists>s. fst (ssh_execute ev (Some c) command w) = Inr s))
   \<and> (\<not> log_writable w (Some c) \<longrightarrow>
        (\<exists>m. fst (ssh_execute ev (Some c) command w) = Inl (OSError m)))"
proof (intro conjI impI allI)
  assume "\<not> log_writable w (Some c)"
  then show "\<exists>m. fst (ssh_execute ev (Some c) command w) = Inl (OSError m)"
    by (rule ssh_execute_unwritable)
next
  let ?w1 = "w\<lparr>sent := sent w @ [command]\<rparr>"
  assume lw: "log_writable w (Some c)"
  then have lw1: "log_writable ?w1 (Some c)" by simp
  have raised: "fst (ssh_execute ev (Some c) command w) = Inr (''Error executing command: '' @ exn_str e)"
    if "ssh_run ev (sent w) command False = Inl e" for e
    using that log_error_ok [OF lw1, of ev "''ssh_execute''" "exn_str e"]
    by (auto simp: ssh_execute_def ssh_execute_try_def io_catch_def io_bind_def io_return_def)
  have nonzero: "fst (ssh_execute ev (Some c) command w)
           = Inr (join [NL, NL]
                ((if stdout r \<noteq> [] then [''STDOUT:'' @ [NL] @ stdout r] else [])
                 @ (if stderr r \<noteq> [] then [''STDERR:'' @ [NL] @ stderr r] else [])
                 @ [''EXIT CODE: '' @ str_int (returncode r)]))"
    if "ssh_run ev (sent w) command False = Inr r \<and> returncode r \<noteq> 0" for r
  proof -
    obtain w2 where a: "log_tool_call ev (Some c) ''ssh_execute'' [(''command'', VStr command)]
          (Some (''exit_code='' @ str_int (returncode r))) ?w1 = (Inr (), w2)" and d: "dirs w2 = dirs ?w1"
      using log_tool_call_ok [OF lw1] by blast
    have "log_writable w2 (Some c)"
      using lw1 d log_writable_cong [of w2 ?w1 "Some c"] by simp
    then obtain w3 where b: "log_error ev (Some c) ''ssh_execute''
          (''Command failed with exit code '' @ str_int (returncode r)) w2 = (Inr (), w3)"
      using log_error_ok by blast
    show ?thesis
      using that a b
      by (simp add: ssh_execute_def ssh_execute_try_def io_catch_def io_bind_def io_return_def Let_def)
  qed
  have zero: "\<exists>s. fst (ssh_execute ev (Some c) command w) = Inr s"
    if "ssh_run ev (sent w) command False = Inr r" and "returncode r = 0" for r
  proof -
    obtain w2 where a: "log_tool_call ev (Some c) ''ssh_execute'' [(''command'', VStr command)]
          (Some ''success'') ?w1 = (Inr (), w2)"
      using log_tool_call_ok [OF lw1] by blast
    show ?thesis
      using that a
      by (simp add: ssh_execute_def ssh_execute_try_def io_catch_def io_bind_def io_return_def Let_def)
  qed
  show "fst (ssh_execute ev (Some c) command w) = Inr (''Error executing command: '' @ exn_str e)"
    if "ssh_run ev (sent w) command False = Inl e" for e
    using that by (rule raised)
  show "fst (ssh_execute ev (Some c) command w)
           = Inr (join [NL, NL]
                ((if stdout r \<noteq> [] then [''STDOUT:'' @ [NL] @ stdout r] else [])
                 @ (if stderr r \<noteq> [] then [''STDERR:'' @ [NL] @ stderr r] else [])
                 @ [''EXIT CODE: '' @ str_int (returncode r)]))"
    if "ssh_run ev (sent w) command False = Inr r \<and> returncode r \<noteq> 0" for r
    using that by (rule nonzero)
  show "\<exists>s. fst (ssh_execute ev (Some c) command w) = Inr s"
  proof (cases "ssh_run ev (sent w) command False")
    case (Inl e)
    then show ?thesis using raised by blast
  next
    case (Inr r)
    then show ?thesis using nonzero [of r] zero [of r] by (cases "returncode r = 0") auto
  qed
qed

theorem ssh_execute_outcomes_counterexample:
  \<open>fst (ssh_execute sample_vm lost_ctx ''ls /nope'' demo_world)
     = Inl (OSError (''[Errno 2] No such file or directory: '' @ [SQ]
                      @ ''data/projects/gone/logs/project.log'' @ [SQ]))\<close>
  by code_simp

theorem ssh_execute_outcomes_witness:
  \<open>log_writable demo_world demo_ctx
   \<and> ssh_run sample_vm (sent demo_world) ''ls /nope'' False
       = Inr \<lparr>stdout = [], stderr = ''ls: cannot access /nope'', returncode = 2\<rparr>
   \<and> fst (ssh_execute sample_vm demo_ctx ''ls /nope'' demo_world)
       = Inr (''STDERR:'' @ [NL] @ ''ls: cannot access /nope'' @ [NL, NL] @ ''EXIT CODE: 2'')
   \<and> \<not> log_writable demo_world lost_ctx
   \<and> fst (ssh_execute sample_vm lost_ctx ''ls /nope'' demo_world)
       = Inl (OSError (''[Errno 2] No such file or directory: '' @ [SQ]
                        @ ''data/projects/gone/logs/project.log'' @ [SQ]))\<close>
proof -
  let ?lost = "\<lparr>project = Some (demo\<lparr>path := [''data'', ''projects'', ''gone'']\<rparr>)\<rparr>"
  let ?c = "\<lparr>project = Some demo\<rparr>"
  let ?r = "\<lparr>stdout = [], stderr = ''ls: cannot access /nope'', returncode = 2\<rparr>"
  have lw: "log_writable demo_world (Some ?c)"
    by code_simp
  have nlw: "\<not> log_writable demo_world (Some ?lost)"
    by code_simp
  have r: "ssh_run sample_vm (sent demo_world) ''ls /nope'' False = Inr ?r \<and> returncode ?r \<noteq> 0"
    by code_simp
  have out: "join [NL, NL]
                ((if stdout ?r \<noteq> [] then [''STDOUT:'' @ [NL] @ stdout ?r] else [])
                 @ (if stderr ?r \<noteq> [] then [''STDERR:'' @ [NL] @ stderr ?r] else [])
                 @ [''EXIT CODE: '' @ str_int (returncode ?r)])
      = ''STDERR:'' @ [NL] @ ''ls: cannot access /nope'' @ [NL, NL] @ ''EXIT CODE: 2''"
    by code_simp
  from ssh_execute_outcomes [where w = demo_world and c = ?c and ev = sample_vm and command = "''ls /nope''"] lw r
  have "fst (ssh_execute sample_vm (Some ?c) ''ls /nope'' demo_world)
           = Inr (join [NL, NL]
                ((if stdout ?r \<noteq> [] then [''STDOUT:'' @ [NL] @ stdout ?r] else [])
                 @ (if stderr ?r \<noteq> [] then [''STDERR:'' @ [NL] @ stderr ?r] else [])
                 @ [''EXIT CODE: '' @ str_int (returncode ?r)]))"
    by blast
  then have 1: "fst (ssh_execute sample_vm (Some ?c) ''ls /nope'' demo_world)
       = Inr (''STDERR:'' @ [NL] @ ''ls: cannot access /nope'' @ [NL, NL] @ ''EXIT CODE: 2'')"
    by (simp only: out)
  from ssh_execute_outcomes [where w = demo_world and c = ?lost and ev = sample_vm and command = "''ls /nope''"] nlw
  obtain m where m: "fst (ssh_execute sample_vm (Some ?lost) ''ls /nope'' demo_world) = Inl (OSError m)"
    by blast
  have "projl (fst (ssh_execute sample_vm (Some ?lost) ''ls /nope'' demo_world))
      = OSError (''[Errno 2] No such file or directory: '' @ [SQ]
                        @ ''data/projects/gone/logs/project.log'' @ [SQ])"
    by code_simp
  with m have 2: "fst (ssh_execute sample_vm (Some ?lost) ''ls /nope'' demo_world)
       = Inl (OSError (''[Errno 2] No such file or directory: '' @ [SQ]
                        @ ''data/projects/gone/logs/project.log'' @ [SQ]))"
    by simp
  show ?thesis
    unfolding demo_ctx_def lost_ctx_def using lw nlw r 1 2 by blast
qed

section \<open>Reading the project log\<close>

lemma read_text_exists: "read_text w p = Inr logtext \<Longrightarrow> exists w p"
  by (auto simp: read_text_def exists_def is_file_def split: if_splits option.splits)

lemma recent_of_eq:
  assumes "1 \<le> n"
  shows "recent_of n xs = drop (length xs - nat n) xs"
  using assms by (auto simp: recent_of_def slice_from_def Let_def max_def nat_diff_distrib')

lemma split_on_not_Nil: "split_on c s \<noteq> []"
  by (cases s) (auto split: list.splits)

text \<open>
  C7, as the code has it. When the log file does not exist, \<open>project_read_logs\<close> answers
  \<open>No log entries yet.\<close> without raising. On an existing file and a limit \<open>n\<close> of at least
  one, the lines are those of the stripped text as read (line ends translated); a level
  filter keeps exactly the lines that contain the filter in upper case between square
  brackets (so a lower-case filter finds an upper-case level, while a level that was
  logged in lower case is found by no filter, and a filter whose upper-case form leaves
  the code points below 256 finds nothing); and the answer lists the last
  \<open>min n total\<close> of the kept lines, in their order, where \<open>total\<close> counts the kept lines.
\<close>

theorem project_read_logs_recent:
  assumes ctx: "project c = Some p"
  shows "(\<not> exists w (path p @ [''logs'', ''project.log'']) \<longrightarrow>
            project_read_logs w (Some c) n level_filter = Inr ''No log entries yet.'')
       \<and> (\<forall>logtext. read_text w (path p @ [''logs'', ''project.log'']) = Inr logtext \<and> 1 \<le> n \<longrightarrow>
            project_read_logs w (Some c) n level_filter =
              (let all_lines = split_on NL (py_strip logtext);
                   kept = (if level_filter = [] then all_lines
                           else case py_upper level_filter of
                                  Some upper \<Rightarrow> filter (contains (''['' @ upper @ '']'')) all_lines
                                | None \<Rightarrow> []);
                   recent = drop (length kept - nat n) kept
               in if kept = []
                  then Inr (''No log entries found with level '' @ level_filter @ ''.'')
                  else Inr (''Log entries ('' @ str_nat (min (nat n) (length kept)) @ '' of ''
                            @ str_nat (length kept) @ '' total):'' @ [NL, NL] @ join [NL] recent)))"
proof (intro conjI impI allI)
  assume "\<not> exists w (path p @ [''logs'', ''project.log''])"
  then show "project_read_logs w (Some c) n level_filter = Inr ''No log entries yet.''"
    using ctx by (simp add: project_read_logs_def get_project_def)
next
  fix logtext
  assume h: "read_text w (path p @ [''logs'', ''project.log'']) = Inr logtext \<and> 1 \<le> n"
  define all_lines where "all_lines = split_on NL (py_strip logtext)"
  define kept where "kept = (if level_filter = [] then all_lines
                           else case py_upper level_filter of
                                  Some upper \<Rightarrow> filter (contains (''['' @ upper @ '']'')) all_lines
                                | None \<Rightarrow> [])"
  define recent where "recent = drop (length kept - nat n) kept"
  have fl: "filter_level level_filter all_lines = kept"
    by (simp add: filter_level_def kept_def)
  have rc: "recent_of n kept = recent"
    using h by (simp add: recent_of_eq recent_def)
  have k: "level_filter = [] \<Longrightarrow> kept \<noteq> []"
    using split_on_not_Nil by (simp add: kept_def all_lines_def)
  have pos: "0 < nat n"
    using h by simp
  have len: "length recent = min (nat n) (length kept)"
    unfolding recent_def using pos by auto
  have d: "recent = [] \<longleftrightarrow> kept = []"
    unfolding recent_def using pos by (cases kept) auto
  have "project_read_logs w (Some c) n level_filter = Inr (log_report level_filter kept recent)"
    using ctx h read_text_exists [of w _ logtext]
    by (simp add: project_read_logs_def get_project_def Let_def fl rc flip: all_lines_def)
  also have "log_report level_filter kept recent =
      (if kept = [] then ''No log entries found with level '' @ level_filter @ ''.''
       else ''Log entries ('' @ str_nat (min (nat n) (length kept)) @ '' of ''
            @ str_nat (length kept) @ '' total):'' @ [NL, NL] @ join [NL] recent)"
    using k d len by (auto simp: log_report_def)
  finally have res: "project_read_logs w (Some c) n level_filter =
      (if kept = [] then Inr (''No log entries found with level '' @ level_filter @ ''.'')
       else Inr (''Log entries ('' @ str_nat (min (nat n) (length kept)) @ '' of ''
            @ str_nat (length kept) @ '' total):'' @ [NL, NL] @ join [NL] recent))"
    by (simp split: if_splits)
  show "project_read_logs w (Some c) n level_filter =
              (let all_lines = split_on NL (py_strip logtext);
                   kept = (if level_filter = [] then all_lines
                           else case py_upper level_filter of
                                  Some upper \<Rightarrow> filter (contains (''['' @ upper @ '']'')) all_lines
                                | None \<Rightarrow> []);
                   recent = drop (length kept - nat n) kept
               in if kept = []
                  then Inr (''No log entries found with level '' @ level_filter @ ''.'')
                  else Inr (''Log entries ('' @ str_nat (min (nat n) (length kept)) @ '' of ''
                            @ str_nat (length kept) @ '' total):'' @ [NL, NL] @ join [NL] recent))"
    unfolding Let_def using res [unfolded recent_def kept_def all_lines_def] .
qed

theorem project_read_logs_recent_counterexample:
  \<open>project_read_logs noted_world demo_ctx 50 ''INFO''
     = Inr (''Log entries (1 of 1 total):'' @ [NL, NL]
            @ ''[2024-01-02 03:04:00] [INFO] Project initialized'')
   \<and> py_lower ''INFO'' = py_lower ''info''
   \<and> \<not> contains ''[2024-01-02 03:04:01] [info] a quiet note''
         (projr (project_read_logs noted_world demo_ctx 50 ''INFO''))\<close>
  by code_simp


theorem project_read_logs_recent_witness:
  \<open>read_text noted_world (demo_path @ [''logs'', ''project.log''])
     = Inr (''[2024-01-02 03:04:00] [INFO] Project initialized'' @ [NL]
            @ ''[2024-01-02 03:04:01] [info] a quiet note'' @ [NL]
            @ ''[2024-01-02 03:04:02] [ERROR] ERROR in ssh_execute: boom'' @ [NL])
   \<and> project_read_logs noted_world demo_ctx 2 []
     = Inr (''Log entries (2 of 3 total):'' @ [NL, NL]
            @ ''[2024-01-02 03:04:01] [info] a quiet note'' @ [NL]
            @ ''[2024-01-02 03:04:02] [ERROR] ERROR in ssh_execute: boom'')
   \<and> project_read_logs noted_world demo_ctx 2 ''error''
     = Inr (''Log entries (1 of 1 total):'' @ [NL, NL]
            @ ''[2024-01-02 03:04:02] [ERROR] ERROR in ssh_execute: boom'')
   \<and> project_read_logs noted_world demo_ctx 2 [CHR 0xB5]
     = Inr (''No log entries found with level '' @ [CHR 0xB5] @ ''.'')
   \<and> \<not> exists noted_world ([''data'', ''projects'', ''gone''] @ [''logs'', ''project.log''])
   \<and> project_read_logs noted_world lost_ctx 2 [] = Inr ''No log entries yet.''\<close>
proof -
  let ?gone = "demo\<lparr>path := [''data'', ''projects'', ''gone'']\<rparr>"
  let ?lost = "\<lparr>project = Some ?gone\<rparr>"
  let ?c = "\<lparr>project = Some demo\<rparr>"
  let ?T = "''[2024-01-02 03:04:00] [INFO] Project initialized'' @ [NL]
            @ ''[2024-01-02 03:04:01] [info] a quiet note'' @ [NL]
            @ ''[2024-01-02 03:04:02] [ERROR] ERROR in ssh_execute: boom'' @ [NL]"
  have pc: "project ?c = Some demo" and pl: "project ?lost = Some ?gone"
    by simp_all
  have rt: "read_text noted_world (path demo @ [''logs'', ''project.log'']) = Inr ?T \<and> (1::int) \<le> 2"
    by code_simp
  have rt': "read_text noted_world (demo_path @ [''logs'', ''project.log'']) = Inr ?T"
    by code_simp
  have ne: "\<not> exists noted_world (path ?gone @ [''logs'', ''project.log''])"
    by code_simp
  have ne': "\<not> exists noted_world ([''data'', ''projects'', ''gone''] @ [''logs'', ''project.log''])"
    by code_simp
  from project_read_logs_recent [OF pc, where w = noted_world and n = 2 and level_filter = "[]"] rt
  have "project_read_logs noted_world (Some ?c) 2 [] =
              (let all_lines = split_on NL (py_strip ?T);
                   kept = (if [] = ([]::string) then all_lines
                           else case py_upper [] of
                                  Some upper \<Rightarrow> filter (contains (''['' @ upper @ '']'')) all_lines
                                | None \<Rightarrow> []);
                   recent = drop (length kept - nat 2) kept
               in if kept = []
                  then Inr (''No log entries found with level '' @ [] @ ''.'')
                  else Inr (''Log entries ('' @ str_nat (min (nat 2) (length kept)) @ '' of ''
                            @ str_nat (length kept) @ '' total):'' @ [NL, NL] @ join [NL] recent))"
    by blast
  also have "\<dots> = Inr (''Log entries (2 of 3 total):'' @ [NL, NL]
            @ ''[2024-01-02 03:04:01] [info] a quiet note'' @ [NL]
            @ ''[2024-01-02 03:04:02] [ERROR] ERROR in ssh_execute: boom'')"
    by code_simp
  finally have 1: "project_read_logs noted_world (Some ?c) 2 [] = Inr (''Log entries (2 of 3 total):'' @ [NL, NL]
            @ ''[2024-01-02 03:04:01] [info] a quiet note'' @ [NL]
            @ ''[2024-01-02 03:04:02] [ERROR] ERROR in ssh_execute: boom'')" .
  from project_read_logs_recent [OF pc, where w = noted_world and n = 2 and level_filter = "''error''"] rt
  have "project_read_logs noted_world (Some ?c) 2 ''error'' =
              (let all_lines = split_on NL (py_strip ?T);
                   kept = (if ''error'' = [] then all_lines
                           else case py_upper ''error'' of
                                  Some upper \<Rightarrow> filter (contains (''['' @ upper @ '']'')) all_lines
                                | None \<Rightarrow> []);
                   recent = drop (length kept - nat 2) kept
               in if kept = []
                  then Inr (''No log entries found with level '' @ ''error'' @ ''.'')
                  else Inr (''Log entries ('' @ str_nat (min (nat 2) (length kept)) @ '' of ''
                            @ str_nat (length kept) @ '' total):'' @ [NL, NL] @ join [NL] recent))"
    by blast
  also have "\<dots> = Inr (''Log entries (1 of 1 total):'' @ [NL, NL]
            @ ''[2024-01-02 03:04:02] [ERROR] ERROR in ssh_execute: boom'')"
    by code_simp
  finally have 2: "project_read_logs noted_world (Some ?c) 2 ''error''
     = Inr (''Log entries (1 of 1 total):'' @ [NL, NL]
            @ ''[2024-01-02 03:04:02] [ERROR] ERROR in ssh_execute: boom'')" .
  from project_read_logs_recent [OF pl, where w = noted_world and n = 2 and level_filter = "[]"] ne
  have 3: "project_read_logs noted_world (Some ?lost) 2 [] = Inr ''No log entries yet.''"
    by blast
  from project_read_logs_recent [OF pc, where w = noted_world and n = 2 and level_filter = "[CHR 0xB5]"] rt
  have "project_read_logs noted_world (Some ?c) 2 [CHR 0xB5] =
              (let all_lines = split_on NL (py_strip ?T);
                   kept = (if [CHR 0xB5] = [] then all_lines
                           else case py_upper [CHR 0xB5] of
                                  Some upper \<Rightarrow> filter (contains (''['' @ upper @ '']'')) all_lines
                                | None \<Rightarrow> []);
                   recent = drop (length kept - nat 2) kept
               in if kept = []
                  then Inr (''No log entries found with level '' @ [CHR 0xB5] @ ''.'')
                  else Inr (''Log entries ('' @ str_nat (min (nat 2) (length kept)) @ '' of ''
                            @ str_nat (length kept) @ '' total):'' @ [NL, NL] @ join [NL] recent))"
    by blast
  also have "\<dots> = Inr (''No log entries found with level '' @ [CHR 0xB5] @ ''.'')"
    by code_simp
  finally have 4: "project_read_logs noted_world (Some ?c) 2 [CHR 0xB5]
     = Inr (''No log entries found with level '' @ [CHR 0xB5] @ ''.'')" .
  show ?thesis
    unfolding demo_ctx_def lost_ctx_def using rt' ne' 1 2 3 4 by blast
qed

section \<open>Listing projects\<close>

lemma sorted_reverse_props:
  "sorted (rev (sorted_reverse ds)) \<and> set (sorted_reverse ds) = set ds"
  using sorted_sort_key [of "\<lambda>x. x" "rev ds"] by (simp add: sorted_reverse_def)

lemma Project_load_path: "Project_load ev w d = Inr proj \<Longrightarrow> path proj = d"
  by (auto simp: Project_load_def Let_def split: if_splits sum.splits)

lemma list_entries_filter:
  "concat (map (list_entry ev w) ds) =
     map (\<lambda>d. case Project_load ev w d of
            Inr proj \<Rightarrow> ''- '' @ py_str (name proj) @ '' ('' @ py_str (created_at proj) @ ''): '' @ path_str d
          | Inl e \<Rightarrow> ''- (invalid): '' @ path_str d)
       (filter (\<lambda>d. is_dir w d \<and> exists w (d @ [''metadata.json''])) ds)"
proof (induction ds)
  case Nil
  then show ?case by simp
next
  case (Cons d ds)
  have "list_entry ev w d =
      (if is_dir w d \<and> exists w (d @ [''metadata.json''])
       then [case Project_load ev w d of
            Inr proj \<Rightarrow> ''- '' @ py_str (name proj) @ '' ('' @ py_str (created_at proj) @ ''): '' @ path_str d
          | Inl e \<Rightarrow> ''- (invalid): '' @ path_str d]
       else [])"
    by (auto simp: list_entry_def split: sum.splits dest: Project_load_path)
  with Cons show ?case by simp
qed

text \<open>
  C3, as the code has it. \<open>project_list\<close> goes through the entries of the projects
  directory in descending order of their names and reports one line for each directory
  that holds \<open>metadata.json\<close>: the name, creation stamp and path of the project when the
  metadata loads, \<open>(invalid)\<close> with the path when loading raises. A directory without
  \<open>metadata.json\<close> gets no line at all; so a root with one valid project and one
  directory without metadata is reported as the one valid entry and nothing else.
\<close>

theorem project_list_omits:
  assumes "iterdir w PROJECTS_DIR = Inr ds"
  shows "sorted (rev (sorted_reverse ds)) \<and> set (sorted_reverse ds) = set ds
       \<and> project_list ev w =
           Inr (let shown = filter (\<lambda>d. is_dir w d \<and> exists w (d @ [''metadata.json''])) (sorted_reverse ds)
                in if shown = [] then ''No projects found.''
                   else ''Projects:'' @ [NL] @ join [NL]
                     (map (\<lambda>d. case Project_load ev w d of
                              Inr proj \<Rightarrow> ''- '' @ py_str (name proj) @ '' ('' @ py_str (created_at proj)
                                           @ ''): '' @ path_str d
                            | Inl e \<Rightarrow> ''- (invalid): '' @ path_str d) shown))"
  using assms sorted_reverse_props [of ds]
  by (simp add: project_list_def list_entries_filter Let_def)

theorem project_list_omits_counterexample:
  \<open>children demo_world PROJECTS_DIR = [demo_path, [''data'', ''projects'', ''20240105-000000_scratch'']]
   \<and> \<not> exists demo_world [''data'', ''projects'', ''20240105-000000_scratch'', ''metadata.json'']
   \<and> project_list sample_vm demo_world
     = Inr (''Projects:'' @ [NL] @ ''- demo (20240102-030400): data/projects/20240102-030400_demo'')
   \<and> \<not> contains ''(invalid)'' (projr (project_list sample_vm demo_world))\<close>
  by code_simp

theorem project_list_omits_witness:
  \<open>iterdir demo_world PROJECTS_DIR
     = Inr [demo_path, [''data'', ''projects'', ''20240105-000000_scratch'']]
   \<and> sorted_reverse [demo_path, [''data'', ''projects'', ''20240105-000000_scratch'']]
     = [[''data'', ''projects'', ''20240105-000000_scratch''], demo_path]
   \<and> project_list sample_vm demo_world
     = Inr (''Projects:'' @ [NL] @ ''- demo (20240102-030400): data/projects/20240102-030400_demo'')\<close>
proof -
  let ?ds = "[demo_path, [''data'', ''projects'', ''20240105-000000_scratch'']]"
  have it: "iterdir demo_world PROJECTS_DIR = Inr ?ds"
    by code_simp
  have sr: "sorted_reverse ?ds = [[''data'', ''projects'', ''20240105-000000_scratch''], demo_path]"
    by code_simp
  from project_list_omits [OF it, of sample_vm]
  have "project_list sample_vm demo_world =
           Inr (let shown = filter (\<lambda>d. is_dir demo_world d \<and> exists demo_world (d @ [''metadata.json'']))
                              (sorted_reverse ?ds)
                in if shown = [] then ''No projects found.''
                   else ''Projects:'' @ [NL] @ join [NL]
                     (map (\<lambda>d. case Project_load sample_vm demo_world d of
                              Inr proj \<Rightarrow> ''- '' @ py_str (name proj) @ '' ('' @ py_str (created_at proj)
                                           @ ''): '' @ path_str d
                            | Inl e \<Rightarrow> ''- (invalid): '' @ path_str d) shown))"
    by blast
  also have "\<dots> = Inr (''Projects:'' @ [NL] @ ''- demo (20240102-030400): data/projects/20240102-030400_demo'')"
    by code_simp
  finally show ?thesis
    using it sr by blast
qed

section \<open>Advice notes\<close>

subsection \<open>The files after saving a note\<close>

lemma filter_remdups_single:
  assumes a: "a \<in> set xs" and pa: "P a" and only: "\<forall>x\<in>set xs. P x \<longrightarrow> x = a"
  shows "filter P (remdups xs) = [a]"
proof -
  define ys where "ys = filter P (remdups xs)"
  have d: "distinct ys"
    by (simp add: ys_def)
  have mem: "a \<in> set ys"
    using a pa by (simp add: ys_def)
  have all: "y = a" if "y \<in> set ys" for y
  proof -
    from that have "y \<in> set xs" and "P y" by (simp_all add: ys_def)
    with only show ?thesis by blast
  qed
  show ?thesis
    unfolding ys_def [symmetric]
  proof (cases ys)
    case Nil
    with mem show "ys = [a]" by simp
  next
    case (Cons y ys')
    have y: "y = a" using all [of y] Cons by simp
    have "ys' = []"
    proof (cases ys')
      case Nil
      then show ?thesis .
    next
      case (Cons z zs)
      have "z = a" using all [of z] \<open>ys = y # ys'\<close> Cons by simp
      with d y \<open>ys = y # ys'\<close> Cons show ?thesis by simp
    qed
    with Cons y show "ys = [a]" by simp
  qed
qed

lemma children_empty:
  "children w d = [] \<Longrightarrow> x \<in> set (dirs w) \<or> x \<in> fst ` set (files w) \<Longrightarrow> x \<noteq> [] \<Longrightarrow> butlast x \<noteq> d"
  by (auto simp: children_def filter_empty_conv)

lemma save_advice_world:
  assumes dir: "is_dir w (path p @ [''advice''])"
      and empty: "children w (path p @ [''advice'']) = []"
      and ap: "ap = path p @ [''advice'', advice_filename (clock ev (ticks w)) ttl]"
      and ft: "filetext = ''# '' @ ttl @ [NL, NL] @ body @ [NL]"
      and lf: "lf = path p @ [''logs'', ''project.log'']"
  shows "dirs (snd (save_advice ev p ttl body w)) = dirs w
       \<and> (files (snd (save_advice ev p ttl body w)) = AList.update ap filetext (files w)
          \<or> (\<exists>X. files (snd (save_advice ev p ttl body w))
                   = AList.update lf X (AList.update ap filetext (files w))))"
proof -
  have ap_ne: "ap \<noteq> []" and bl: "butlast ap = path p @ [''advice'']"
    by (simp_all add: ap butlast_append)
  have nd: "ap \<notin> set (dirs w)"
    using children_empty [OF empty, of ap] ap_ne bl by auto
  let ?w0 = "w\<lparr>ticks := Suc (ticks w)\<rparr>"
  let ?w1 = "?w0\<lparr>files := AList.update ap filetext (files w)\<rparr>"
  have wr: "write_text ap filetext ?w0 = (Inr (), ?w1)"
    using nd ap_ne bl dir by (simp add: write_text_def is_dir_def)
  have sa: "save_advice ev p ttl body w =
      io_bind (Project_log ev p (''Advice saved: '' @ ttl) ''INFO'') (\<lambda>_. io_return ap) ?w1"
    using wr by (simp add: save_advice_def io_bind_def utcnow_def Let_def ap ft)
  show ?thesis
    unfolding sa
    by (auto simp: io_bind_def io_return_def Project_log_def utcnow_def Let_def append_text_def lf
        split: sum.splits prod.splits if_splits)
qed

lemma save_then_read:
  assumes dir: "is_dir w (path p @ [''advice''])"
      and empty: "children w (path p @ [''advice'']) = []"
  shows "get_all_advice (snd (save_advice ev p ttl body w)) p =
     Inr [[(''title'', advice_title
                         (split_on NL (py_strip (universal_newlines (''# '' @ ttl @ [NL, NL] @ body @ [NL]))))
                         (md_stem (advice_filename (clock ev (ticks w)) ttl))),
           (''content'', advice_body
                         (split_on NL (py_strip (universal_newlines (''# '' @ ttl @ [NL, NL] @ body @ [NL]))))),
           (''file'', advice_filename (clock ev (ticks w)) ttl)]]"
proof -
  define fn where "fn = advice_filename (clock ev (ticks w)) ttl"
  define adv where "adv = path p @ [''advice'']"
  define ap where "ap = path p @ [''advice'', fn]"
  define filetext where "filetext = ''# '' @ ttl @ [NL, NL] @ body @ [NL]"
  define lf where "lf = path p @ [''logs'', ''project.log'']"
  define w' where "w' = snd (save_advice ev p ttl body w)"
  have ap_ne: "ap \<noteq> []" and bl: "butlast ap = adv" and la: "last ap = fn"
    by (simp_all add: ap_def adv_def butlast_append)
  have lf_ne: "lf \<noteq> ap" and lf_bl: "butlast lf \<noteq> adv"
    by (simp_all add: ap_def lf_def adv_def butlast_append)
  have nd: "ap \<notin> set (dirs w)"
    using children_empty [OF empty, of ap] ap_ne bl by (auto simp: adv_def)
  from save_advice_world [OF dir empty, of ap ev ttl filetext body lf]
  have dw: "dirs w' = dirs w"
    and fw: "files w' = AList.update ap filetext (files w)
          \<or> (\<exists>X. files w' = AList.update lf X (AList.update ap filetext (files w)))"
    by (simp_all add: w'_def ap_def filetext_def lf_def fn_def)
  have dom: "fst ` set (files w') = {ap} \<union> fst ` set (files w)
           \<or> (fst ` set (files w') = {lf} \<union> ({ap} \<union> fst ` set (files w)))"
  proof -
    have 1: "fst ` set (AList.update ap filetext (files w)) = {ap} \<union> fst ` set (files w)"
      by (rule dom_update)
    have 2: "fst ` set (AList.update lf X (AList.update ap filetext (files w)))
          = {lf} \<union> ({ap} \<union> fst ` set (files w))" for X
      by (simp only: dom_update)
    from fw show ?thesis
    proof
      assume "files w' = AList.update ap filetext (files w)"
      then show ?thesis using 1 by simp
    next
      assume "\<exists>X. files w' = AList.update lf X (AList.update ap filetext (files w))"
      then obtain X where "files w' = AList.update lf X (AList.update ap filetext (files w))" ..
      then show ?thesis using 2 [of X] by simp
    qed
  qed
  have keys: "ap \<in> fst ` set (files w')"
    using dom by blast
  have keys_sub: "fst ` set (files w') \<subseteq> fst ` set (files w) \<union> {ap, lf}"
    using dom by blast
  have mo: "map_of (files w') ap = Some filetext"
    using fw lf_ne by (auto simp: update_conv')
  have ch: "children w' adv = [ap]"
    unfolding children_def
  proof (rule filter_remdups_single)
    show "ap \<in> set (dirs w' @ map fst (files w'))"
      using keys by simp
    show "ap \<noteq> [] \<and> butlast ap = adv"
      using ap_ne bl by simp
    show "\<forall>x\<in>set (dirs w' @ map fst (files w')). x \<noteq> [] \<and> butlast x = adv \<longrightarrow> x = ap"
    proof (intro ballI impI)
      fix x
      assume x: "x \<in> set (dirs w' @ map fst (files w'))" and px: "x \<noteq> [] \<and> butlast x = adv"
      from x keys_sub dw have "x \<in> set (dirs w) \<or> x \<in> fst ` set (files w) \<or> x = ap \<or> x = lf"
        by auto
      with px lf_bl children_empty [OF empty, of x] show "x = ap"
        by (auto simp: adv_def)
    qed
  qed
  have md: "endswith (last ap) ''.md''"
    by (simp add: la fn_def advice_filename_def endswith_def suffix_def)
  have isd: "is_dir w' adv"
    using dir dw by (simp add: is_dir_def adv_def)
  have gl: "glob_md w' adv = [ap]"
    using isd ch md by (simp add: glob_md_def)
  have rt: "read_text w' ap = Inr (universal_newlines filetext)"
    using mo nd ap_ne dw by (simp add: read_text_def is_dir_def)
  have "get_all_advice w' p = advice_of_files w' [ap]"
    using isd gl by (simp add: get_all_advice_def exists_def sorted_py_def flip: adv_def)
  also have "\<dots> = Inr [[(''title'', advice_title (split_on NL (py_strip (universal_newlines filetext))) (md_stem fn)),
           (''content'', advice_body (split_on NL (py_strip (universal_newlines filetext)))),
           (''file'', fn)]]"
    using rt la by (simp add: Let_def)
  finally show ?thesis
    by (simp add: w'_def filetext_def fn_def)
qed

subsection \<open>Stripping and splitting\<close>

















subsection \<open>Saving and reading back\<close>

text \<open>
  C6. On a project whose \<open>advice\<close> directory exists and has no entries,
  \<open>save_advice("Title", "Body")\<close> followed by \<open>get_all_advice\<close> gives exactly one entry,
  with title \<open>Title\<close> and content \<open>Body\<close> (and the name of the file written). This holds
  whether or not the log line that \<open>save_advice\<close> appends afterwards could be written.
\<close>

theorem advice_round_trip:
  assumes dir: "is_dir w (path p @ [''advice''])"
      and empty: "children w (path p @ [''advice'']) = []"
  shows "get_all_advice (snd (save_advice ev p ''Title'' ''Body'' w)) p =
     Inr [[(''title'', ''Title''), (''content'', ''Body''),
           (''file'', advice_filename (clock ev (ticks w)) ''Title'')]]"
proof -
  have lines: "split_on NL (py_strip (universal_newlines (''# '' @ ''Title'' @ [NL, NL] @ ''Body'' @ [NL])))
      = [''# Title'', [], ''Body'']"
    by code_simp
  have t: "advice_title [''# Title'', [], ''Body''] stem = ''Title''" for stem
    unfolding advice_title_def list.case by code_simp
  have b: "advice_body [''# Title'', [], ''Body''] = ''Body''"
    by code_simp
  show ?thesis
    unfolding save_then_read [OF dir empty] lines t b ..
qed

theorem advice_round_trip_witness:
  "is_dir demo_world (path demo @ [''advice''])
   \<and> children demo_world (path demo @ [''advice'']) = []
   \<and> get_all_advice (snd (save_advice sample_vm demo ''Title'' ''Body'' demo_world)) demo
     = Inr [[(''title'', ''Title''), (''content'', ''Body''), (''file'', ''20240102-030400_Title.md'')]]"
proof -
  have d: "is_dir demo_world (path demo @ [''advice''])"
    by code_simp
  have e: "children demo_world (path demo @ [''advice'']) = []"
    by code_simp
  have f: "advice_filename (clock sample_vm (ticks demo_world)) ''Title'' = ''20240102-030400_Title.md''"
    by code_simp
  from advice_round_trip [OF d e, of sample_vm] d e show ?thesis
    by (simp only: f simp_thms)
qed



end
